theory Spec2Isabelle
  imports Main
begin

section \<open>Contribution calendars\<close>

text \<open>
  The worker in \<^verbatim>\<open>src/index.js\<close> fetches one contribution calendar per account and
  year, merges the calendars of a year by date and renders the merged years as one SVG
  document. The definitions below follow the functions of that file and keep their names.

  Modelling conventions.
  \<^item> Contribution counts are the non-negative integers of the upstream payload, type
    \<open>nat\<close>; the sums the code forms stay far below \<open>2 ^ 53\<close>, where the host's numbers
    are exact.
  \<^item> The \<^verbatim>\<open>Map\<close> of the merge is a partial function. The plain objects keyed by
    date and filled by the merge (\<^verbatim>\<open>userContributionData\<close> and its per-date
    breakdowns) are partial functions as well; this is exact for the dates and account
    names of the upstream API, none of which is the name of a member every object
    inherits. Where the code reads such an object with a fallback (\<^verbatim>\<open>THEMES[theme]\<close>,
    \<^verbatim>\<open>userContribs[username]\<close>), the model writes the inherited members out
    (\<open>objectPrototypeKeys\<close> below).
  \<^item> \<^verbatim>\<open>xs.forEach\<close> is a left fold, \<^verbatim>\<open>push\<close> appends at the end.
\<close>

record day =
  date :: string
  contributionCount :: nat

record mergedDay = day +
  contributionLevel :: string

record 'd week =
  contributionDays :: "'d list"

record 'd calendar =
  totalContributions :: nat
  weeks :: "'d week list"

record 'd mergedCalendar = "'d calendar" +
  userContributions :: "string \<rightharpoonup> (string \<rightharpoonup> nat)"

subsection \<open>getLevel\<close>

definition getLevel :: "nat \<Rightarrow> string" where
  "getLevel count =
     (if count = 0 then ''NONE''
      else if count < 5 then ''FIRST_QUARTILE''
      else if count < 10 then ''SECOND_QUARTILE''
      else if count < 20 then ''THIRD_QUARTILE''
      else ''FOURTH_QUARTILE'')"

subsection \<open>mergeContributions\<close>

text \<open>
  \<^verbatim>\<open>usernames[idx]\<close> past the end of the array is \<^verbatim>\<open>undefined\<close>, which as a property
  key is the string \<^verbatim>\<open>undefined\<close>.
\<close>

definition usernameAt :: "string list \<Rightarrow> nat \<Rightarrow> string" where
  "usernameAt usernames idx =
     (if idx < length usernames then usernames ! idx else ''undefined'')"

text \<open>\<^verbatim>\<open>contributionMap.get(date) || 0\<close>: a missing entry and the entry 0 both give 0.\<close>

definition getOrZero :: "(string \<rightharpoonup> nat) \<Rightarrow> string \<Rightarrow> nat" where
  "getOrZero m k = (case m k of None \<Rightarrow> 0 | Some c \<Rightarrow> c)"

type_synonym mergeState = "(string \<rightharpoonup> nat) \<times> (string \<rightharpoonup> (string \<rightharpoonup> nat))"

text \<open>The body of the innermost \<^verbatim>\<open>forEach\<close> of the first pass, for one day of one account.\<close>

definition accumulateDay :: "string \<Rightarrow> mergeState \<Rightarrow> day \<Rightarrow> mergeState" where
  "accumulateDay username st d =
     (let contributionMap = fst st;
          userContributionData = snd st;
          perUser = (case userContributionData (date d) of None \<Rightarrow> Map.empty | Some m \<Rightarrow> m);
          existing = getOrZero contributionMap (date d)
      in (contributionMap(date d \<mapsto> existing + contributionCount d),
          userContributionData(date d \<mapsto> perUser(username \<mapsto> contributionCount d))))"

definition accumulateCalendar :: "string \<Rightarrow> mergeState \<Rightarrow> day calendar \<Rightarrow> mergeState" where
  "accumulateCalendar username st cal =
     foldl (\<lambda>st1 wk. foldl (accumulateDay username) st1 (contributionDays wk)) st (weeks cal)"

definition accumulateAll :: "day calendar list \<Rightarrow> string list \<Rightarrow> mergeState" where
  "accumulateAll dataArray usernames =
     foldl (\<lambda>st (idx, cal). accumulateCalendar (usernameAt usernames idx) st cal)
       (Map.empty, Map.empty) (enumerate 0 dataArray)"

text \<open>
  The second pass walks the template. Its state is the running \<^verbatim>\<open>totalContributions\<close>
  and the weeks pushed so far.
\<close>

definition mergeDay :: "(string \<rightharpoonup> nat) \<Rightarrow> day \<Rightarrow> mergedDay" where
  "mergeDay contributionMap d =
     (let count = getOrZero contributionMap (date d)
      in \<lparr>date = date d, contributionCount = count, contributionLevel = getLevel count\<rparr>)"

definition walkDay ::
  "(string \<rightharpoonup> nat) \<Rightarrow> nat \<times> mergedDay list \<Rightarrow> day \<Rightarrow> nat \<times> mergedDay list" where
  "walkDay contributionMap acc d =
     (let md = mergeDay contributionMap d
      in (fst acc + contributionCount md, snd acc @ [md]))"

definition walkWeek ::
  "(string \<rightharpoonup> nat) \<Rightarrow> nat \<times> mergedDay week list \<Rightarrow> day week \<Rightarrow> nat \<times> mergedDay week list" where
  "walkWeek contributionMap acc wk =
     (let r = foldl (walkDay contributionMap) (fst acc, []) (contributionDays wk)
      in (fst r, snd acc @ [\<lparr>contributionDays = snd r\<rparr>]))"

definition walkTemplate ::
  "day calendar \<Rightarrow> (string \<rightharpoonup> nat) \<Rightarrow> (string \<rightharpoonup> (string \<rightharpoonup> nat)) \<Rightarrow> mergedDay mergedCalendar" where
  "walkTemplate template contributionMap userContributionData =
     (let r = foldl (walkWeek contributionMap) (0, []) (weeks template)
      in \<lparr>totalContributions = fst r, weeks = snd r, userContributions = userContributionData\<rparr>)"

definition mergeContributions ::
  "day calendar list \<Rightarrow> string list \<Rightarrow> mergedDay mergedCalendar option" where
  "mergeContributions dataArray usernames =
     (case dataArray of
        [] \<Rightarrow> None
      | template # _ \<Rightarrow>
          (let st = accumulateAll dataArray usernames
           in Some (walkTemplate template (fst st) (snd st))))"

subsection \<open>Notions the statements about merging use\<close>

text \<open>All days of a calendar in template order, the dates of each week, and the count an
  account's calendar holds for a date (0 when the calendar has no day of that date).\<close>

definition allDays :: "('d, 'a) calendar_scheme \<Rightarrow> 'd list" where
  "allDays cal = concat (map contributionDays (weeks cal))"

definition weekDates :: "'a day_scheme week list \<Rightarrow> string list list" where
  "weekDates ws = map (\<lambda>wk. map date (contributionDays wk)) ws"

definition countOn :: "day calendar \<Rightarrow> string \<Rightarrow> nat" where
  "countOn cal d =
     (case find (\<lambda>x. date x = d) (allDays cal) of None \<Rightarrow> 0 | Some x \<Rightarrow> contributionCount x)"

text \<open>The per-date breakdown read the way the renderer reads it: an account without an
  entry for the date counts 0.\<close>

definition breakdownOf :: "(string \<rightharpoonup> (string \<rightharpoonup> nat)) \<Rightarrow> string \<Rightarrow> string \<Rightarrow> nat" where
  "breakdownOf userContributionData d username =
     (case userContributionData d of None \<Rightarrow> 0 | Some perUser \<Rightarrow> getOrZero perUser username)"

text \<open>Two accounts over the same two dates, partitioned into weeks differently.\<close>

definition calendarA :: "day calendar" where
  "calendarA =
     \<lparr>totalContributions = 3,
      weeks = [\<lparr>contributionDays = [\<lparr>date = ''2024-06-01'', contributionCount = 3\<rparr>]\<rparr>,
               \<lparr>contributionDays = [\<lparr>date = ''2024-06-02'', contributionCount = 0\<rparr>]\<rparr>]\<rparr>"

definition calendarB :: "day calendar" where
  "calendarB =
     \<lparr>totalContributions = 8,
      weeks = [\<lparr>contributionDays = [\<lparr>date = ''2024-06-01'', contributionCount = 7\<rparr>,
                                    \<lparr>date = ''2024-06-02'', contributionCount = 1\<rparr>]\<rparr>]\<rparr>"


section \<open>Strings and numbers of the host\<close>

text \<open>
  A string is the list of its characters. The characters the code treats specially
  (white space, digits, the comma, the five characters it escapes) are ASCII.
  \<^verbatim>\<open>trim\<close> removes white space and line terminators at both ends; of those the
  model has the ones a \<open>char\<close> can hold.
\<close>

definition isWhiteSpace :: "char \<Rightarrow> bool" where
  "isWhiteSpace c \<longleftrightarrow>
     c \<in> set [CHR 0x09, CHR 0x0A, CHR 0x0B, CHR 0x0C, CHR 0x0D, CHR 0x20, CHR 0xA0]"

definition trim :: "string \<Rightarrow> string" where
  "trim s = rev (dropWhile isWhiteSpace (rev (dropWhile isWhiteSpace s)))"

fun join :: "string \<Rightarrow> string list \<Rightarrow> string" where
  "join sep [] = []"
| "join sep [x] = x"
| "join sep (x # y # ys) = x @ sep @ join sep (y # ys)"

text \<open>\<^verbatim>\<open>str.split(sep)\<close> for a separator of one character; the empty string splits into
  one empty piece.\<close>

fun split :: "char \<Rightarrow> string \<Rightarrow> string list" where
  "split sep [] = [[]]"
| "split sep (c # cs) =
     (if c = sep then [] # split sep cs
      else (case split sep cs of [] \<Rightarrow> [[c]] | piece # pieces \<Rightarrow> (c # piece) # pieces))"

text \<open>A non-negative integer in a template literal prints in decimal (the numbers the
  code prints are counts, coordinates and years, all far below \<open>10 ^ 21\<close>, where the
  host switches to exponent notation).\<close>

definition digitChar :: "nat \<Rightarrow> char" where
  "digitChar n = ''0123456789'' ! n"

function showNat :: "nat \<Rightarrow> string" where
  "showNat n = (if n < 10 then [digitChar n] else showNat (n div 10) @ [digitChar (n mod 10)])"
  by pat_completeness auto
termination
  by (relation "measure id") auto

declare showNat.simps [simp del]

definition showInt :: "int \<Rightarrow> string" where
  "showInt i = (if i < 0 then CHR ''-'' # showNat (nat (- i)) else showNat (nat i))"

text \<open>\<^verbatim>\<open>Math.max()\<close> of no arguments is \<^verbatim>\<open>-Infinity\<close>, and stays so under the
  arithmetic of the width.\<close>

datatype number = Finite nat | NegInfinity

definition showNumber :: "number \<Rightarrow> string" where
  "showNumber x = (case x of Finite n \<Rightarrow> showNat n | NegInfinity \<Rightarrow> ''-Infinity'')"

section \<open>Themes\<close>

record levels =
  NONE :: string
  FIRST_QUARTILE :: string
  SECOND_QUARTILE :: string
  THIRD_QUARTILE :: string
  FOURTH_QUARTILE :: string

record theme =
  background :: string
  yearLabel :: string
  monthLabel :: string
  dayLabel :: string
  levels :: levels

definition themeTable :: "(string \<times> theme) list" where
  "themeTable =
    [(''dark'',
      \<lparr>background = ''#0d1117'', yearLabel = ''#f0f6fc'', monthLabel = ''#8b949e'', dayLabel = ''#8b949e'',
       levels = \<lparr>NONE = ''#161b22'', FIRST_QUARTILE = ''#0e4429'', SECOND_QUARTILE = ''#006d32'',
                 THIRD_QUARTILE = ''#26a641'', FOURTH_QUARTILE = ''#39d353''\<rparr>\<rparr>),
     (''light'',
      \<lparr>background = ''#ffffff'', yearLabel = ''#24292f'', monthLabel = ''#57606a'', dayLabel = ''#57606a'',
       levels = \<lparr>NONE = ''#ebedf0'', FIRST_QUARTILE = ''#9be9a8'', SECOND_QUARTILE = ''#40c463'',
                 THIRD_QUARTILE = ''#30a14e'', FOURTH_QUARTILE = ''#216e39''\<rparr>\<rparr>),
     (''solarized-dark'',
      \<lparr>background = ''#002b36'', yearLabel = ''#839496'', monthLabel = ''#839496'', dayLabel = ''#839496'',
       levels = \<lparr>NONE = ''#073642'', FIRST_QUARTILE = ''#268bd2'', SECOND_QUARTILE = ''#2aa198'',
                 THIRD_QUARTILE = ''#859900'', FOURTH_QUARTILE = ''#b58900''\<rparr>\<rparr>),
     (''solarized-light'',
      \<lparr>background = ''#fdf6e3'', yearLabel = ''#657b83'', monthLabel = ''#657b83'', dayLabel = ''#657b83'',
       levels = \<lparr>NONE = ''#eee8d5'', FIRST_QUARTILE = ''#268bd2'', SECOND_QUARTILE = ''#2aa198'',
                 THIRD_QUARTILE = ''#859900'', FOURTH_QUARTILE = ''#b58900''\<rparr>\<rparr>),
     (''nord-polar-night'',
      \<lparr>background = ''#2e3440'', yearLabel = ''#d8dee9'', monthLabel = ''#d8dee9'', dayLabel = ''#d8dee9'',
       levels = \<lparr>NONE = ''#3b4252'', FIRST_QUARTILE = ''#434c5e'', SECOND_QUARTILE = ''#4c566a'',
                 THIRD_QUARTILE = ''#5e81ac'', FOURTH_QUARTILE = ''#88c0d0''\<rparr>\<rparr>),
     (''nord-frost'',
      \<lparr>background = ''#2e3440'', yearLabel = ''#d8dee9'', monthLabel = ''#d8dee9'', dayLabel = ''#d8dee9'',
       levels = \<lparr>NONE = ''#3b4252'', FIRST_QUARTILE = ''#8fbcbb'', SECOND_QUARTILE = ''#88c0d0'',
                 THIRD_QUARTILE = ''#81a1c1'', FOURTH_QUARTILE = ''#5e81ac''\<rparr>\<rparr>),
     (''nord-aurora'',
      \<lparr>background = ''#2e3440'', yearLabel = ''#d8dee9'', monthLabel = ''#d8dee9'', dayLabel = ''#d8dee9'',
       levels = \<lparr>NONE = ''#3b4252'', FIRST_QUARTILE = ''#a3be8c'', SECOND_QUARTILE = ''#ebcb8b'',
                 THIRD_QUARTILE = ''#d08770'', FOURTH_QUARTILE = ''#bf616a''\<rparr>\<rparr>)]"

text \<open>
  \<^verbatim>\<open>THEMES\<close> is an object literal, and \<^verbatim>\<open>THEMES[name]\<close> reads a property: one of the
  seven own properties, or else a member inherited from the prototype of all objects, or
  else \<^verbatim>\<open>undefined\<close>. An inherited member is a function or an object: it is truthy, and
  it has none of the fields of a theme.
\<close>

definition objectPrototypeKeys :: "string list" where
  "objectPrototypeKeys =
     [''constructor'', ''__proto__'', ''hasOwnProperty'', ''isPrototypeOf'',
      ''propertyIsEnumerable'', ''toLocaleString'', ''toString'', ''valueOf'',
      ''__defineGetter__'', ''__defineSetter__'', ''__lookupGetter__'', ''__lookupSetter__'']"

datatype themeEntry = Undefined | Theme theme | Inherited

definition THEMES :: "string \<Rightarrow> themeEntry" where
  "THEMES name =
     (case map_of themeTable name of
        Some t \<Rightarrow> Theme t
      | None \<Rightarrow> if name \<in> set objectPrototypeKeys then Inherited else Undefined)"

definition dark :: theme where
  "dark = snd (hd themeTable)"

text \<open>Reading a field: a theme has it, anything else yields \<^verbatim>\<open>undefined\<close>, which a
  template literal prints as that word.\<close>

definition themeField :: "(theme \<Rightarrow> string) \<Rightarrow> themeEntry \<Rightarrow> string" where
  "themeField field e = (case e of Theme t \<Rightarrow> field t | _ \<Rightarrow> ''undefined'')"

text \<open>\<^verbatim>\<open>colors[level]\<close> on the levels of a theme; the level comes from \<open>getLevel\<close>.\<close>

definition levelColor :: "levels \<Rightarrow> string \<Rightarrow> string option" where
  "levelColor colors level =
     (if level = ''NONE'' then Some (NONE colors)
      else if level = ''FIRST_QUARTILE'' then Some (FIRST_QUARTILE colors)
      else if level = ''SECOND_QUARTILE'' then Some (SECOND_QUARTILE colors)
      else if level = ''THIRD_QUARTILE'' then Some (THIRD_QUARTILE colors)
      else if level = ''FOURTH_QUARTILE'' then Some (FOURTH_QUARTILE colors)
      else None)"

text \<open>\<^verbatim>\<open>THEMES[theme]?.levels || THEMES.dark.levels\<close>, then
  \<^verbatim>\<open>colors[level] || colors.NONE\<close>.\<close>

definition getLevelColor :: "string \<Rightarrow> string \<Rightarrow> string" where
  "getLevelColor level theme =
     (let colors = (case THEMES theme of Theme t \<Rightarrow> levels t | _ \<Rightarrow> levels dark)
      in case levelColor colors level of Some c \<Rightarrow> c | None \<Rightarrow> NONE colors)"

text \<open>\<^verbatim>\<open>THEMES[theme] || THEMES.dark\<close>, the theme object of the document: only
  \<^verbatim>\<open>undefined\<close> is replaced by the dark theme.\<close>

definition themeColorsOf :: "string \<Rightarrow> themeEntry" where
  "themeColorsOf theme = (case THEMES theme of Undefined \<Rightarrow> THEMES ''dark'' | e \<Rightarrow> e)"

section \<open>Rendering\<close>

definition escapeChar :: "char \<Rightarrow> string" where
  "escapeChar c =
     (if c = CHR ''<'' then ''&lt;''
      else if c = CHR ''>'' then ''&gt;''
      else if c = CHR ''&'' then ''&amp;''
      else if c = CHR 0x27 then ''&apos;''
      else if c = CHR 0x22 then ''&quot;''
      else [c])"

definition escapeXml :: "string \<Rightarrow> string" where
  "escapeXml str = concat (map escapeChar str)"

text \<open>
  What the statements about escaping use. A text is markup-safe when it has none of the
  characters \<^verbatim>\<open><\<close>, \<^verbatim>\<open>>\<close>, the apostrophe and the double quote, and each of its
  ampersands starts one of the five entities. \<open>unescapeXml\<close> reads the five entities
  back.
\<close>

definition startsEntity :: "string \<Rightarrow> bool" where
  "startsEntity cs \<longleftrightarrow>
     take 3 cs = ''lt;'' \<or> take 3 cs = ''gt;'' \<or> take 4 cs = ''amp;'' \<or>
     take 5 cs = ''apos;'' \<or> take 5 cs = ''quot;''"

fun markupSafe :: "string \<Rightarrow> bool" where
  "markupSafe [] = True"
| "markupSafe (c # cs) =
     ((if c = CHR ''&'' then startsEntity cs
       else c \<noteq> CHR ''<'' \<and> c \<noteq> CHR ''>'' \<and> c \<noteq> CHR 0x27 \<and> c \<noteq> CHR 0x22) \<and>
      markupSafe cs)"

fun unescapeXml :: "string \<Rightarrow> string" where
  "unescapeXml [] = []"
| "unescapeXml (c # cs) =
     (if c = CHR ''&'' \<and> take 3 cs = ''lt;'' then CHR ''<'' # unescapeXml (drop 3 cs)
      else if c = CHR ''&'' \<and> take 3 cs = ''gt;'' then CHR ''>'' # unescapeXml (drop 3 cs)
      else if c = CHR ''&'' \<and> take 4 cs = ''amp;'' then CHR ''&'' # unescapeXml (drop 4 cs)
      else if c = CHR ''&'' \<and> take 5 cs = ''apos;'' then CHR 0x27 # unescapeXml (drop 5 cs)
      else if c = CHR ''&'' \<and> take 5 cs = ''quot;'' then CHR 0x22 # unescapeXml (drop 5 cs)
      else c # unescapeXml cs)"

text \<open>
  \<^verbatim>\<open>new Date(dateString)\<close> on the dates of the upstream API, which have the form
  \<^verbatim>\<open>YYYY-MM-DD\<close>: such a string is midnight UTC of that day, and the worker runs in UTC,
  so the month and the day of the month are the ones written. The host's parser accepts
  further formats, which differ between implementations; the model reads the ISO form of
  a calendar day and takes every other string for an invalid date, whose month prints as
  \<^verbatim>\<open>Invalid Date\<close> and whose day is \<^verbatim>\<open>NaN\<close>.
\<close>

definition digitValue :: "char \<Rightarrow> nat option" where
  "digitValue c =
     (let n = (of_char c :: nat) in if 48 \<le> n \<and> n \<le> 57 then Some (n - 48) else None)"

definition numberOf :: "string \<Rightarrow> nat option" where
  "numberOf s =
     (if s \<noteq> [] \<and> list_all (\<lambda>c. digitValue c \<noteq> None) s
      then Some (foldl (\<lambda>a c. 10 * a + (case digitValue c of Some v \<Rightarrow> v | None \<Rightarrow> 0)) 0 s)
      else None)"

definition isLeapYear :: "nat \<Rightarrow> bool" where
  "isLeapYear y \<longleftrightarrow> (y mod 4 = 0 \<and> y mod 100 \<noteq> 0) \<or> y mod 400 = 0"

definition daysInMonth :: "nat \<Rightarrow> nat \<Rightarrow> nat" where
  "daysInMonth y m =
     (if m = 2 then (if isLeapYear y then 29 else 28)
      else if m \<in> set [4, 6, 9, 11] then 30 else 31)"

definition parseIsoDate :: "string \<Rightarrow> (nat \<times> nat \<times> nat) option" where
  "parseIsoDate s =
     (if length s = 10 \<and> s ! 4 = CHR ''-'' \<and> s ! 7 = CHR ''-''
      then (case (numberOf (take 4 s), numberOf (take 2 (drop 5 s)), numberOf (drop 8 s)) of
              (Some y, Some m, Some d) \<Rightarrow>
                if 1 \<le> m \<and> m \<le> 12 \<and> 1 \<le> d \<and> d \<le> daysInMonth y m then Some (y, m, d) else None
            | _ \<Rightarrow> None)
      else None)"

definition monthNames :: "string list" where
  "monthNames = [''Jan'', ''Feb'', ''Mar'', ''Apr'', ''May'', ''Jun'',
                 ''Jul'', ''Aug'', ''Sep'', ''Oct'', ''Nov'', ''Dec'']"

text \<open>\<^verbatim>\<open>date.toLocaleDateString("en-US", { month: "short" })\<close> and \<^verbatim>\<open>date.getDate()\<close>,
  as functions of the date string (\<open>None\<close> is \<^verbatim>\<open>NaN\<close>).\<close>

definition monthShort :: "string \<Rightarrow> string" where
  "monthShort dateString =
     (case parseIsoDate dateString of
        Some (y, m, d) \<Rightarrow> monthNames ! (m - 1)
      | None \<Rightarrow> ''Invalid Date'')"

definition getDate :: "string \<Rightarrow> nat option" where
  "getDate dateString = (case parseIsoDate dateString of Some (y, m, d) \<Rightarrow> Some d | None \<Rightarrow> None)"

definition formatDate :: "string \<Rightarrow> string" where
  "formatDate dateString =
     (let month = monthShort dateString;
          day = getDate dateString
      in month @ '' '' @ (case day of Some n \<Rightarrow> showNat n | None \<Rightarrow> ''NaN''))"

text \<open>
  \<^verbatim>\<open>userContribs[username]\<close> reads a property of a plain object: the account's own entry,
  or else a member inherited from the prototype of all objects, or else \<^verbatim>\<open>undefined\<close>.
  An inherited member is truthy, so \<^verbatim>\<open>|| 0\<close> keeps it, and it is neither \<^verbatim>\<open>0\<close> nor
  \<^verbatim>\<open>1\<close>; the template literal prints it the way the worker's engine prints a built-in
  function or the prototype object.
\<close>

datatype property = Absent | Own nat | InheritedMember string

definition getProperty :: "(string \<rightharpoonup> nat) \<Rightarrow> string \<Rightarrow> property" where
  "getProperty obj key =
     (case obj key of
        Some v \<Rightarrow> Own v
      | None \<Rightarrow> if key \<in> set objectPrototypeKeys then InheritedMember key else Absent)"

definition memberText :: "string \<Rightarrow> string" where
  "memberText key =
     (if key = ''__proto__'' then ''[object Object]''
      else ''function '' @ (if key = ''constructor'' then ''Object'' else key) @
           ''() { [native code] }'')"

text \<open>The text of one account's line, and the tooltip: the loop appends each line and a
  newline to the content, which starts as the formatted date, a colon and a newline.\<close>

definition tooltipLine :: "(string \<rightharpoonup> nat) \<Rightarrow> string \<Rightarrow> string" where
  "tooltipLine userContribs username =
     (case getProperty userContribs username of
        InheritedMember key \<Rightarrow> username @ '' '' @ memberText key @ '' contributions''
      | Absent \<Rightarrow> username @ '' no contributions''
      | Own count \<Rightarrow>
          if count = 0 then username @ '' no contributions''
          else username @ '' '' @ showNat count @ '' contribution'' @
               (if count \<noteq> 1 then ''s'' else []))"

definition generateTooltipContent :: "string \<Rightarrow> (string \<rightharpoonup> nat) \<Rightarrow> string list \<Rightarrow> string" where
  "generateTooltipContent dateString userContribs usernames =
     trim (foldl (\<lambda>content username. content @ tooltipLine userContribs username @ ''\<newline>'')
             (formatDate dateString @ '':\<newline>'') usernames)"

definition cellSize :: nat where "cellSize = 10"
definition cellGap :: nat where "cellGap = 3"
definition yearLabelHeight :: nat where "yearLabelHeight = 20"
definition monthLabelHeight :: nat where "monthLabelHeight = 15"
definition dayLabelWidth :: nat where "dayLabelWidth = 30"

text \<open>The month labels: the state of the loop is the text so far, \<^verbatim>\<open>currentMonth\<close> and
  \<^verbatim>\<open>monthX\<close>. An empty week returns before \<^verbatim>\<open>monthX\<close> advances; an invalid date has
  the day \<^verbatim>\<open>NaN\<close>, which is not \<^verbatim>\<open><= 7\<close>.\<close>

definition monthLabelStep ::
  "nat \<Rightarrow> nat \<Rightarrow> string \<times> string \<times> nat \<Rightarrow> 'a day_scheme week \<Rightarrow> string \<times> string \<times> nat" where
  \<open>monthLabelStep yOffset padding st wk =
     (case st of (svg, currentMonth, monthX) \<Rightarrow>
        (case contributionDays wk of
           [] \<Rightarrow> st
         | first # _ \<Rightarrow>
             (let month = monthShort (date first);
                  emit = (month \<noteq> currentMonth \<and>
                          (case getDate (date first) of Some n \<Rightarrow> n \<le> 7 | None \<Rightarrow> False))
              in (if emit
                  then svg @ (''<text x="'' @
                             showNat monthX @
                             ''" y="'' @
                             showNat (yOffset + padding + yearLabelHeight + 10) @
                             ''" class="month-label">'' @
                             month @
                             ''</text>\<newline>'')
                  else svg,
                  if emit then month else currentMonth,
                  monthX + (cellSize + cellGap)))))\<close>

definition dayLabelStep :: "nat \<Rightarrow> nat \<Rightarrow> nat \<Rightarrow> string \<Rightarrow> nat \<times> string \<Rightarrow> string" where
  \<open>dayLabelStep xOffset yOffset padding svg il =
     (case il of (idx, label) \<Rightarrow>
        (if label \<noteq> []
         then (let y = yOffset + padding + yearLabelHeight + monthLabelHeight +
                       idx * (cellSize + cellGap) + cellSize - 2
               in svg @ (''<text x="'' @
                        showNat (xOffset + padding) @
                        ''" y="'' @
                        showNat y @
                        ''" class="day-label">'' @
                        label @
                        ''</text>\<newline>''))
         else svg))\<close>

definition renderCell ::
  "(mergedDay, 'a) mergedCalendar_scheme \<Rightarrow> string list \<Rightarrow> nat \<Rightarrow> nat \<Rightarrow> string \<Rightarrow> nat \<Rightarrow> nat \<Rightarrow>
     nat \<Rightarrow> mergedDay \<Rightarrow> string" where
  \<open>renderCell cal usernames xOffset yOffset theme padding weekIdx dayIdx d =
     (let x = xOffset + padding + dayLabelWidth + weekIdx * (cellSize + cellGap);
          y = yOffset + padding + yearLabelHeight + monthLabelHeight + dayIdx * (cellSize + cellGap);
          color = getLevelColor (contributionLevel d) theme;
          tooltipContent =
            generateTooltipContent (date d)
              (case userContributions cal (date d) of Some m \<Rightarrow> m | None \<Rightarrow> Map.empty)
              usernames
      in ''<rect class="contribution-square" x="'' @
         showNat x @
         ''" y="'' @
         showNat y @
         ''" width="'' @
         showNat cellSize @
         ''" height="'' @
         showNat cellSize @
         ''" fill="'' @
         color @
         ''" data-date="'' @
         escapeXml (date d) @
         ''" data-count="'' @
         showNat (contributionCount d) @
         ''">\<newline>'' @
         ''  <title>'' @
         escapeXml tooltipContent @
         ''</title>\<newline>'' @
         ''</rect>\<newline>'')\<close>

definition generateSVGStyles :: "themeEntry \<Rightarrow> string" where
  \<open>generateSVGStyles themeColors =
     (''\<newline>'' @
      ''    .header-label {\<newline>'' @
      ''      font-family: -apple-system, BlinkMacSystemFont, 'Segoe UI', Helvetica, Arial, sans-serif;\<newline>'' @
      ''      font-size: 12px;\<newline>'' @
      ''      font-weight: 600;\<newline>'' @
      ''      fill: '' @
      themeField yearLabel themeColors @
      '';\<newline>'' @
      ''    }\<newline>'' @
      ''    .year-label {\<newline>'' @
      ''      font-family: -apple-system, BlinkMacSystemFont, 'Segoe UI', Helvetica, Arial, sans-serif;\<newline>'' @
      ''      font-size: 14px;\<newline>'' @
      ''      font-weight: 600;\<newline>'' @
      ''      fill: '' @
      themeField yearLabel themeColors @
      '';\<newline>'' @
      ''    }\<newline>'' @
      ''    .month-label {\<newline>'' @
      ''      font-family: -apple-system, BlinkMacSystemFont, 'Segoe UI', Helvetica, Arial, sans-serif;\<newline>'' @
      ''      font-size: 10px;\<newline>'' @
      ''      fill: '' @
      themeField monthLabel themeColors @
      '';\<newline>'' @
      ''    }\<newline>'' @
      ''    .day-label {\<newline>'' @
      ''      font-family: -apple-system, BlinkMacSystemFont, 'Segoe UI', Helvetica, Arial, sans-serif;\<newline>'' @
      ''      font-size: 9px;\<newline>'' @
      ''      fill: '' @
      themeField dayLabel themeColors @
      '';\<newline>'' @
      ''    }\<newline>'' @
      ''    .contribution-square {\<newline>'' @
      ''      shape-rendering: geometricPrecision;\<newline>'' @
      ''      outline: 1px solid rgba(27, 31, 35, 0.06);\<newline>'' @
      ''      outline-offset: -1px;\<newline>'' @
      ''    }'')\<close>

definition generateCompleteSVG ::
  "number \<Rightarrow> nat \<Rightarrow> string list \<Rightarrow> string list \<Rightarrow> string \<Rightarrow> nat \<Rightarrow> string" where
  \<open>generateCompleteSVG width height usernames graphSVGs theme padding =
     (let themeColors = themeColorsOf theme;
          userListText = ''Users - '' @ join '', '' usernames
      in (''<?xml version="1.0" encoding="UTF-8"?>\<newline>'' @
         ''<svg width="'' @
         showNumber width @
         ''" height="'' @
         showNat height @
         ''" xmlns="http://www.w3.org/2000/svg" xmlns:xlink="http://www.w3.org/1999/xlink">\<newline>'' @
         ''  <style>'' @
         generateSVGStyles themeColors @
         ''</style>\<newline>'' @
         ''  <rect width="100%" height="100%" fill="'' @
         themeField background themeColors @
         ''"/>\<newline>'' @
         ''  <text x="'' @
         showNat padding @
         ''" y="'' @
         showNat (padding + 16) @
         ''" class="header-label">'' @
         escapeXml userListText @
         ''</text>\<newline>'' @
         ''  '' @
         join ''\<newline>'' graphSVGs @
         ''\<newline>'' @
         ''</svg>''))\<close>

record graph =
  svg :: string
  width :: nat
  height :: nat

definition renderYearGraph ::
  "(mergedDay, 'a) mergedCalendar_scheme \<Rightarrow> int \<Rightarrow> string list \<Rightarrow> nat \<Rightarrow> nat \<Rightarrow> string \<Rightarrow> nat \<Rightarrow> graph" where
  \<open>renderYearGraph cal year usernames xOffset yOffset theme padding =
     (let graphWidth = dayLabelWidth + length (weeks cal) * (cellSize + cellGap);
          graphHeight = yearLabelHeight + monthLabelHeight + 7 * (cellSize + cellGap);
          svg0 = (''<text x="'' @
                  showNat (xOffset + padding) @
                  ''" y="'' @
                  showNat (yOffset + padding + 14) @
                  ''" class="year-label">'' @
                  showInt year @
                  ''</text>\<newline>'');
          svg1 = fst (foldl (monthLabelStep yOffset padding)
                        (svg0, [], xOffset + padding + dayLabelWidth) (weeks cal));
          dayLabels = [[], ''Mon'', [], ''Wed'', [], ''Fri'', []];
          svg2 = foldl (dayLabelStep xOffset yOffset padding) svg1 (enumerate 0 dayLabels);
          svg3 = foldl (\<lambda>s (weekIdx, wk).
                    foldl (\<lambda>s1 (dayIdx, d).
                        s1 @ renderCell cal usernames xOffset yOffset theme padding weekIdx dayIdx d)
                      s (enumerate 0 (contributionDays wk)))
                   svg2 (enumerate 0 (weeks cal))
      in \<lparr>svg = svg3, width = graphWidth, height = graphHeight\<rparr>)\<close>

record yearDatum =
  year :: int
  calendar :: "mergedDay mergedCalendar"

definition graphSpacing :: nat where "graphSpacing = 20"
definition headerHeight :: nat where "headerHeight = 25"
definition bottomSpacing :: nat where "bottomSpacing = 15"

definition maxWeeks :: "yearDatum list \<Rightarrow> number" where
  "maxWeeks yearData =
     (case yearData of
        [] \<Rightarrow> NegInfinity
      | yd # yds \<Rightarrow> Finite (foldl max (length (weeks (calendar yd)))
                              (map (\<lambda>y. length (weeks (calendar y))) yds)))"

definition documentWidth :: "nat \<Rightarrow> number \<Rightarrow> number" where
  "documentWidth padding mw =
     (case mw of
        NegInfinity \<Rightarrow> NegInfinity
      | Finite n \<Rightarrow> Finite (padding + dayLabelWidth + n * (cellSize + cellGap) + padding))"

definition generateSVGVertical :: "yearDatum list \<Rightarrow> string list \<Rightarrow> string \<Rightarrow> string" where
  "generateSVGVertical yearData usernames theme =
     (let padding = 10;
          width' = documentWidth padding (maxWeeks yearData);
          r = foldl (\<lambda>(currentY, graphSVGs) (idx, yd).
                 (let result = renderYearGraph (calendar yd) (year yd) usernames 0 currentY theme padding
                  in (currentY + height result +
                        (if idx + 1 < length yearData then graphSpacing else 0),
                      graphSVGs @ [svg result])))
               (padding + headerHeight, []) (enumerate 0 yearData);
          totalHeight = fst r + padding + bottomSpacing
      in generateCompleteSVG width' totalHeight usernames (snd r) theme padding)"

subsection \<open>Notions the statements about the markup of the document use\<close>

text \<open>
  The markup characters of a text are its occurrences of \<^verbatim>\<open><\<close>, \<^verbatim>\<open>>\<close>, the apostrophe
  and the double quote, in order. In a text whose ampersands are escaped, every ampersand
  starts one of the five entities. A plain text has no markup character and no ampersand.
\<close>

definition isMarkupChar :: "char \<Rightarrow> bool" where
  "isMarkupChar c \<longleftrightarrow> c = CHR ''<'' \<or> c = CHR ''>'' \<or> c = CHR 0x27 \<or> c = CHR 0x22"

definition markupChars :: "string \<Rightarrow> string" where
  "markupChars s = filter isMarkupChar s"

fun ampersandsEscaped :: "string \<Rightarrow> bool" where
  "ampersandsEscaped [] = True"
| "ampersandsEscaped (c # cs) =
     ((if c = CHR ''&'' then startsEntity cs else True) \<and> ampersandsEscaped cs)"

definition plain :: "string \<Rightarrow> bool" where
  "plain s = list_all (\<lambda>c. \<not> isMarkupChar c \<and> c \<noteq> CHR ''&'') s"

text \<open>
  The markup characters the code itself writes: those of a \<^verbatim>\<open>text\<close> element (the
  header, a year label, a month label, a day label), of a cell (a \<^verbatim>\<open>rect\<close> with eight
  attributes and its \<^verbatim>\<open>title\<close>), and of the head of the document (the XML
  declaration, the \<^verbatim>\<open>svg\<close> tag, the stylesheet with its quoted font names and the
  background). A year's graph has the year label, one label per month the loop emits,
  three day labels, and one cell per day; the document has its head, the header, the
  graphs of its years and the closing tag.
\<close>

definition labelSkeleton :: string where
  \<open>labelSkeleton = ''<"""""">'' @ ''<>''\<close>

definition cellSkeleton :: string where
  \<open>cellSkeleton = ''<"""""""""""""""">'' @ ''<>'' @ ''<>'' @ ''<>''\<close>

definition headSkeleton :: string where
  \<open>headSkeleton =
     ''<"""">'' @ ''<"""""""">'' @ ''<>'' @ replicate 8 (CHR 0x27) @ ''<>'' @ ''<"""""">''\<close>

fun countMonthLabels :: "string \<Rightarrow> 'a day_scheme week list \<Rightarrow> nat" where
  "countMonthLabels currentMonth [] = 0"
| "countMonthLabels currentMonth (wk # wks) =
     (case contributionDays wk of
        [] \<Rightarrow> countMonthLabels currentMonth wks
      | first # _ \<Rightarrow>
          (if monthShort (date first) \<noteq> currentMonth \<and>
              (case getDate (date first) of Some n \<Rightarrow> n \<le> 7 | None \<Rightarrow> False)
           then Suc (countMonthLabels (monthShort (date first)) wks)
           else countMonthLabels currentMonth wks))"

definition graphSkeleton :: "(mergedDay, 'a) mergedCalendar_scheme \<Rightarrow> string" where
  "graphSkeleton cal =
     labelSkeleton @
     concat (replicate (countMonthLabels [] (weeks cal)) labelSkeleton) @
     concat (replicate 3 labelSkeleton) @
     concat (replicate (length (allDays cal)) cellSkeleton)"

definition documentSkeleton :: "yearDatum list \<Rightarrow> string" where
  "documentSkeleton yearData =
     headSkeleton @ labelSkeleton @ concat (map (\<lambda>yd. graphSkeleton (calendar yd)) yearData) @ ''<>''"

text \<open>A calendar whose one day has a date with markup in it, for an example.\<close>

definition hostileCalendar :: "mergedDay mergedCalendar" where
  \<open>hostileCalendar =
     \<lparr>totalContributions = 2,
      weeks = [\<lparr>contributionDays =
                 [\<lparr>date = ''"><script>'', contributionCount = 2, contributionLevel = ''FIRST_QUARTILE''\<rparr>]\<rparr>],
      userContributions = [''"><script>'' \<mapsto> [''<b>&'' \<mapsto> 2]]\<rparr>\<close>

section \<open>The request handler\<close>

text \<open>
  The handler's inputs are the two bindings of the environment, the three query
  parameters (\<open>None\<close> when the URL lacks the parameter) and what lies outside the worker:
  the current year, and the results of the two remote calls. \<open>verifyUserAuthorization\<close>
  never throws and yields a boolean; \<open>fetchContributions\<close> yields a calendar or throws
  (\<open>None\<close>). Every remote call the handler issues is recorded, in order, next to the
  response it returns. All calls of a fan-out start before any of their results is
  awaited, so the second fan-out records a call for every year and account also when one
  of them fails. The model starts where the URL has been parsed, and of the headers of a
  response it keeps the content type.
\<close>

record env =
  GITHUB_TOKEN :: "string option"
  PRIMARY_USER :: "string option"

record request =
  queryMerge :: "string option"
  queryYears :: "string option"
  queryTheme :: "string option"

record world =
  currentYear :: int
  verifyUserAuthorization :: "string \<Rightarrow> string \<Rightarrow> string \<Rightarrow> bool"
  fetchContributions :: "string \<Rightarrow> int \<Rightarrow> string \<Rightarrow> day calendar option"

datatype call =
  VerifyUserAuthorization string string string
| FetchContributions string int string

record response =
  status :: nat
  contentType :: string
  body :: string

definition textResponse :: "nat \<Rightarrow> string \<Rightarrow> response" where
  "textResponse code message = \<lparr>status = code, contentType = ''text/plain'', body = message\<rparr>"

text \<open>A missing value and the empty string are falsy.\<close>

definition truthy :: "string option \<Rightarrow> bool" where
  "truthy v = (case v of None \<Rightarrow> False | Some s \<Rightarrow> s \<noteq> [])"

definition orElse :: "string option \<Rightarrow> string \<Rightarrow> string" where
  "orElse v dflt = (case v of None \<Rightarrow> dflt | Some s \<Rightarrow> if s = [] then dflt else s)"

text \<open>
  \<^verbatim>\<open>parseInt(string)\<close> without a radix: leading white space is skipped, a sign is read,
  a prefix \<^verbatim>\<open>0x\<close> selects radix 16, and the longest run of digits of the radix is the
  number; whatever follows is ignored. Without a digit the result is \<^verbatim>\<open>NaN\<close> (\<open>None\<close>).
  The model keeps the exact integer where the host rounds past \<open>2 ^ 53\<close>; the loop below
  stops after at most the years since 2008 either way.
\<close>

definition digitOfRadix :: "nat \<Rightarrow> char \<Rightarrow> nat option" where
  "digitOfRadix radix c =
     (let n = (of_char c :: nat);
          v = (if 48 \<le> n \<and> n \<le> 57 then Some (n - 48)
               else if 97 \<le> n \<and> n \<le> 122 then Some (n - 87)
               else if 65 \<le> n \<and> n \<le> 90 then Some (n - 55)
               else None)
      in case v of Some d \<Rightarrow> if d < radix then Some d else None | None \<Rightarrow> None)"

definition parseInt :: "string \<Rightarrow> int option" where
  "parseInt input =
     (let s = dropWhile isWhiteSpace input;
          negative = (s \<noteq> [] \<and> hd s = CHR ''-'');
          s1 = (if s \<noteq> [] \<and> (hd s = CHR ''+'' \<or> hd s = CHR ''-'') then tl s else s);
          hex = (take 2 s1 = ''0x'' \<or> take 2 s1 = ''0X'');
          radix = (if hex then 16 else 10);
          s2 = (if hex then drop 2 s1 else s1);
          digits = takeWhile (\<lambda>c. digitOfRadix radix c \<noteq> None) s2;
          magnitude = foldl (\<lambda>a c. radix * a + (case digitOfRadix radix c of Some v \<Rightarrow> v | None \<Rightarrow> 0))
                        0 digits
      in if digits = [] then None
         else Some (if negative then - int magnitude else int magnitude))"

definition validThemes :: "string list" where
  "validThemes = [''dark'', ''light'', ''solarized-dark'', ''solarized-light'',
                  ''nord-polar-night'', ''nord-frost'', ''nord-aurora'']"

definition invalidThemeMessage :: string where
  "invalidThemeMessage =
     ''Error: Invalid theme parameter. Valid options: \<newline>- '' @ join ''\<newline>- '' validThemes"

definition invalidYearsMessage :: string where
  "invalidYearsMessage =
     ''Error: Invalid years parameter. Use ?years=N where N is a positive number''"

text \<open>The additional users of the \<^verbatim>\<open>merge\<close> parameter: split at commas, trimmed, without
  the empty pieces and without the primary user.\<close>

definition additionalUsersOf :: "string option \<Rightarrow> string \<Rightarrow> string list" where
  "additionalUsersOf mergeParam primaryUser =
     (if truthy mergeParam
      then filter (\<lambda>u. u \<noteq> [] \<and> u \<noteq> primaryUser) (map trim (split CHR '','' (orElse mergeParam [])))
      else [])"

text \<open>\<^verbatim>\<open>authorizedUsers\<close> starts as the primary user; each authorized additional user is
  pushed in the order of the parameter.\<close>

definition authorizedUsersOf :: "world \<Rightarrow> string \<Rightarrow> string \<Rightarrow> string list \<Rightarrow> string list" where
  "authorizedUsersOf w token primaryUser additionalUsers =
     foldl (\<lambda>authorizedUsers user.
              if verifyUserAuthorization w user primaryUser token
              then authorizedUsers @ [user] else authorizedUsers)
       [primaryUser] additionalUsers"

text \<open>The loop that counts years back from the current year.\<close>

function yearsLoop :: "int \<Rightarrow> int \<Rightarrow> int \<Rightarrow> int list \<Rightarrow> int list" where
  "yearsLoop thisYear yearCount i years =
     (if i < yearCount
      then (let y = thisYear - i
            in if y < 2008 then years
               else yearsLoop thisYear yearCount (i + 1) (years @ [y]))
      else years)"
  by pat_completeness auto
termination
  by (relation "measure (\<lambda>(thisYear, yearCount, i, years). nat (yearCount - i))") auto

declare yearsLoop.simps [simp del]

definition parseYears :: "string option \<Rightarrow> int \<Rightarrow> response + int list" where
  "parseYears yearsParam thisYear =
     (if truthy yearsParam
      then (case parseInt (trim (orElse yearsParam [])) of
              None \<Rightarrow> Inl (textResponse 400 invalidYearsMessage)
            | Some yearCount \<Rightarrow>
                if yearCount < 1 then Inl (textResponse 400 invalidYearsMessage)
                else Inr (yearsLoop thisYear yearCount 0 []))
      else Inr [thisYear])"

text \<open>One year of the second fan-out: the calendars of all authorized users, merged. The
  year fails when a fetch throws, or when the merge returns \<^verbatim>\<open>null\<close>, whose \<^verbatim>\<open>weeks\<close>
  the renderer would read.\<close>

definition fetchYear :: "world \<Rightarrow> string \<Rightarrow> string list \<Rightarrow> int \<Rightarrow> yearDatum option" where
  "fetchYear w token authorizedUsers y =
     (case those (map (\<lambda>u. fetchContributions w u y token) authorizedUsers) of
        None \<Rightarrow> None
      | Some dataArray \<Rightarrow>
          (case mergeContributions dataArray authorizedUsers of
             None \<Rightarrow> None
           | Some merged \<Rightarrow> Some \<lparr>year = y, calendar = merged\<rparr>))"

definition fetchHandler :: "world \<Rightarrow> env \<Rightarrow> request \<Rightarrow> call list \<times> response" where
  "fetchHandler w e req =
     (let themeParam = orElse (queryTheme req) ''dark''
      in if \<not> truthy (GITHUB_TOKEN e)
         then ([], textResponse 500 ''Error: GITHUB_TOKEN not configured.'')
         else if \<not> truthy (PRIMARY_USER e)
         then ([], textResponse 500 ''Error: PRIMARY_USER not configured.'')
         else
           (let token = orElse (GITHUB_TOKEN e) [];
                primaryUser = trim (orElse (PRIMARY_USER e) []);
                additionalUsers = additionalUsersOf (queryMerge req) primaryUser;
                authorizationCalls =
                  map (\<lambda>u. VerifyUserAuthorization u primaryUser token) additionalUsers;
                authorizedUsers = authorizedUsersOf w token primaryUser additionalUsers
            in if length authorizedUsers = 0
               then (authorizationCalls, textResponse 400 ''Error: No authorized users to display'')
               else if themeParam \<notin> set validThemes
               then (authorizationCalls, textResponse 400 invalidThemeMessage)
               else
                 (case parseYears (queryYears req) (currentYear w) of
                    Inl rejected \<Rightarrow> (authorizationCalls, rejected)
                  | Inr years \<Rightarrow>
                      (let fetchCalls =
                             concat (map (\<lambda>y. map (\<lambda>u. FetchContributions u y token) authorizedUsers)
                                       years)
                       in case those (map (fetchYear w token authorizedUsers) years) of
                            None \<Rightarrow>
                              (authorizationCalls @ fetchCalls,
                               textResponse 500
                                 ''An error occurred while generating the contribution graph'')
                          | Some yearData \<Rightarrow>
                              (authorizationCalls @ fetchCalls,
                               \<lparr>status = 200, contentType = ''image/svg+xml'',
                                body = generateSVGVertical yearData authorizedUsers themeParam\<rparr>)))))"

text \<open>A world, an environment and requests for the examples: the account \<^verbatim>\<open>bob\<close> has
  authorized \<^verbatim>\<open>alice\<close>, every other account has not; every fetch yields the calendar
  \<open>calendarA\<close>.\<close>

definition exampleWorld :: world where
  "exampleWorld =
     \<lparr>currentYear = 2024,
      verifyUserAuthorization = (\<lambda>additionalUser primaryUser token. additionalUser = ''bob''),
      fetchContributions = (\<lambda>username y token. Some calendarA)\<rparr>"

definition exampleEnv :: env where
  "exampleEnv = \<lparr>GITHUB_TOKEN = Some ''token'', PRIMARY_USER = Some ''alice''\<rparr>"

subsection \<open>Notions the statements about the handler use\<close>

text \<open>The values the handler binds on its way, as functions of its inputs, and the calls
  of its two fan-outs.\<close>

definition tokenOf :: "env \<Rightarrow> string" where
  "tokenOf e = orElse (GITHUB_TOKEN e) []"

definition primaryUserOf :: "env \<Rightarrow> string" where
  "primaryUserOf e = trim (orElse (PRIMARY_USER e) [])"

definition requestAdditionalUsers :: "env \<Rightarrow> request \<Rightarrow> string list" where
  "requestAdditionalUsers e req = additionalUsersOf (queryMerge req) (primaryUserOf e)"

definition requestAuthorizedUsers :: "world \<Rightarrow> env \<Rightarrow> request \<Rightarrow> string list" where
  "requestAuthorizedUsers w e req =
     authorizedUsersOf w (tokenOf e) (primaryUserOf e) (requestAdditionalUsers e req)"

definition authorizationCalls :: "env \<Rightarrow> request \<Rightarrow> call list" where
  "authorizationCalls e req =
     map (\<lambda>u. VerifyUserAuthorization u (primaryUserOf e) (tokenOf e)) (requestAdditionalUsers e req)"

definition fetchCalls :: "world \<Rightarrow> env \<Rightarrow> request \<Rightarrow> int list \<Rightarrow> call list" where
  "fetchCalls w e req years =
     concat (map (\<lambda>y. map (\<lambda>u. FetchContributions u y (tokenOf e)) (requestAuthorizedUsers w e req))
               years)"

definition isFetchCall :: "call \<Rightarrow> bool" where
  "isFetchCall c = (case c of FetchContributions u y t \<Rightarrow> True | VerifyUserAuthorization u p t \<Rightarrow> False)"

text \<open>The year list in the words of the specification: count back from the current year,
  at most the requested number of years, and no year before 2008.\<close>

definition yearsCountingBack :: "int \<Rightarrow> int \<Rightarrow> int list" where
  "yearsCountingBack thisYear n = filter (\<lambda>y. 2008 \<le> y) (map (\<lambda>k. thisYear - k) [0 .. n - 1])"

definition exampleRequest :: "string option \<Rightarrow> string option \<Rightarrow> string option \<Rightarrow> request" where
  "exampleRequest m y t = \<lparr>queryMerge = m, queryYears = y, queryTheme = t\<rparr>"

text \<open>The merged years a request ends with, when every fetch succeeds (none otherwise).\<close>

definition requestYearData :: "world \<Rightarrow> env \<Rightarrow> request \<Rightarrow> yearDatum list" where
  "requestYearData w e req =
     (case parseYears (queryYears req) (currentYear w) of
        Inl rejected \<Rightarrow> []
      | Inr years \<Rightarrow>
          (case those (map (fetchYear w (tokenOf e) (requestAuthorizedUsers w e req)) years) of
             None \<Rightarrow> []
           | Some yearData \<Rightarrow> yearData))"

section \<open>Activity levels\<close>

text \<open>
  Claim C2. For every non-negative integer count the level is \<^verbatim>\<open>NONE\<close> exactly when the
  count is 0, \<^verbatim>\<open>FIRST_QUARTILE\<close> exactly for counts from 1 to 4, \<^verbatim>\<open>SECOND_QUARTILE\<close>
  exactly for counts from 5 to 9, \<^verbatim>\<open>THIRD_QUARTILE\<close> exactly for counts from 10 to 19 and
  \<^verbatim>\<open>FOURTH_QUARTILE\<close> exactly for counts from 20 on; the boundary counts 0, 4, 5, 9, 10,
  19 and 20 fall in the buckets the specification lists.
\<close>

theorem getLevel_thresholds:
  "(getLevel count = ''NONE'' \<longleftrightarrow> count = 0) \<and>
   (getLevel count = ''FIRST_QUARTILE'' \<longleftrightarrow> 1 \<le> count \<and> count < 5) \<and>
   (getLevel count = ''SECOND_QUARTILE'' \<longleftrightarrow> 5 \<le> count \<and> count < 10) \<and>
   (getLevel count = ''THIRD_QUARTILE'' \<longleftrightarrow> 10 \<le> count \<and> count < 20) \<and>
   (getLevel count = ''FOURTH_QUARTILE'' \<longleftrightarrow> 20 \<le> count) \<and>
   getLevel 0 = ''NONE'' \<and> getLevel 4 = ''FIRST_QUARTILE'' \<and>
   getLevel 5 = ''SECOND_QUARTILE'' \<and> getLevel 9 = ''SECOND_QUARTILE'' \<and>
   getLevel 10 = ''THIRD_QUARTILE'' \<and> getLevel 19 = ''THIRD_QUARTILE'' \<and>
   getLevel 20 = ''FOURTH_QUARTILE''"
  by (simp add: getLevel_def)

section \<open>The merge\<close>

lemma sum_list_map_concat:
  "sum_list (map f (concat xss)) = sum_list (map (\<lambda>xs. sum_list (map f xs)) xss)"
  by (induction xss) simp_all

lemma getOrZero_empty: "getOrZero Map.empty d = 0"
  by (simp add: getOrZero_def)

lemma foldl_walkDay:
  "foldl (walkDay cm) (t, acc) ds =
     (t + sum_list (map (\<lambda>d. getOrZero cm (date d)) ds), acc @ map (mergeDay cm) ds)"
  by (induction ds arbitrary: t acc) (simp_all add: walkDay_def mergeDay_def Let_def)

lemma foldl_walkWeek:
  "foldl (walkWeek cm) (t, acc) ws =
     (t + sum_list (map (\<lambda>wk. sum_list (map (\<lambda>d. getOrZero cm (date d)) (contributionDays wk))) ws),
      acc @ map (\<lambda>wk. \<lparr>contributionDays = map (mergeDay cm) (contributionDays wk)\<rparr>) ws)"
  by (induction ws arbitrary: t acc) (simp_all add: walkWeek_def foldl_walkDay Let_def)

lemma weeks_walkTemplate:
  "weeks (walkTemplate template cm ucd) =
     map (\<lambda>wk. \<lparr>contributionDays = map (mergeDay cm) (contributionDays wk)\<rparr>) (weeks template)"
  by (simp add: walkTemplate_def foldl_walkWeek Let_def)

lemma total_walkTemplate:
  "totalContributions (walkTemplate template cm ucd) =
     sum_list (map (\<lambda>d. getOrZero cm (date d)) (allDays template))"
  by (simp add: walkTemplate_def foldl_walkWeek allDays_def sum_list_map_concat comp_def Let_def)

lemma allDays_walkTemplate:
  "allDays (walkTemplate template cm ucd) = map (mergeDay cm) (allDays template)"
  by (simp add: allDays_def weeks_walkTemplate map_concat comp_def)

lemma contributionCount_mergeDay: "contributionCount (mergeDay cm d) = getOrZero cm (date d)"
  by (simp add: mergeDay_def Let_def)

lemma date_mergeDay: "date (mergeDay cm d) = date d"
  by (simp add: mergeDay_def Let_def)

lemma total_is_sum:
  "totalContributions (walkTemplate template cm ucd) =
     sum_list (map contributionCount (allDays (walkTemplate template cm ucd)))"
  by (simp add: total_walkTemplate allDays_walkTemplate comp_def contributionCount_mergeDay)

lemma getOrZero_accumulateDay:
  "getOrZero (fst (accumulateDay u st x)) d =
     getOrZero (fst st) d + (if date x = d then contributionCount x else 0)"
  by (simp add: accumulateDay_def getOrZero_def Let_def)

lemma getOrZero_foldl_accumulateDay:
  "getOrZero (fst (foldl (accumulateDay u) st ds)) d =
     getOrZero (fst st) d + sum_list (map contributionCount (filter (\<lambda>x. date x = d) ds))"
  by (induction ds arbitrary: st) (simp_all add: getOrZero_accumulateDay)

lemma getOrZero_accumulateCalendar:
  "getOrZero (fst (accumulateCalendar u st cal)) d =
     getOrZero (fst st) d + sum_list (map contributionCount (filter (\<lambda>x. date x = d) (allDays cal)))"
proof -
  have "getOrZero (fst (foldl (\<lambda>st1 wk. foldl (accumulateDay u) st1 (contributionDays wk)) st ws)) d =
     getOrZero (fst st) d +
       sum_list (map contributionCount (filter (\<lambda>x. date x = d) (concat (map contributionDays ws))))" for ws
    by (induction ws arbitrary: st) (simp_all add: getOrZero_foldl_accumulateDay)
  then show ?thesis by (simp add: accumulateCalendar_def allDays_def)
qed

lemma getOrZero_foldl_enumerate:
  "getOrZero (fst (foldl (\<lambda>st (idx, cal). accumulateCalendar (usernameAt usernames idx) st cal)
       st (enumerate n cals))) d =
     getOrZero (fst st) d +
       sum_list (map (\<lambda>cal. sum_list (map contributionCount (filter (\<lambda>x. date x = d) (allDays cal)))) cals)"
  by (induction cals arbitrary: st n) (simp_all add: getOrZero_accumulateCalendar)

lemma getOrZero_accumulateAll:
  "getOrZero (fst (accumulateAll dataArray usernames)) d =
     sum_list (map (\<lambda>cal. sum_list (map contributionCount (filter (\<lambda>x. date x = d) (allDays cal)))) dataArray)"
  unfolding accumulateAll_def by (simp add: getOrZero_foldl_enumerate getOrZero_empty)

lemma sum_filter_distinct:
  "distinct (map date ds) \<Longrightarrow>
     sum_list (map contributionCount (filter (\<lambda>x. date x = d) ds)) =
       (case find (\<lambda>x. date x = d) ds of None \<Rightarrow> 0 | Some x \<Rightarrow> contributionCount x)"
proof (induction ds)
  case Nil
  then show ?case by simp
next
  case (Cons a ds)
  show ?case
  proof (cases "date a = d")
    case True
    from Cons.prems have "date a \<notin> date ` set ds"
      by simp
    with True have "\<forall>x \<in> set ds. date x \<noteq> d"
      by (metis imageI)
    then have "filter (\<lambda>x. date x = d) ds = []"
      by (simp add: filter_empty_conv)
    with True show ?thesis by simp
  next
    case False
    with Cons show ?thesis by simp
  qed
qed

lemma getOrZero_accumulateAll_countOn:
  assumes "\<forall>cal \<in> set dataArray. distinct (map date (allDays cal))"
  shows "getOrZero (fst (accumulateAll dataArray usernames)) d =
     sum_list (map (\<lambda>cal. countOn cal d) dataArray)"
proof -
  have "map (\<lambda>cal. sum_list (map contributionCount (filter (\<lambda>x. date x = d) (allDays cal)))) dataArray
      = map (\<lambda>cal. countOn cal d) dataArray"
    using assms by (simp add: countOn_def sum_filter_distinct)
  then show ?thesis by (simp only: getOrZero_accumulateAll)
qed

lemma breakdownOf_accumulateDay:
  "breakdownOf (snd (accumulateDay u' st x)) d u =
     (if date x = d \<and> u = u' then contributionCount x else breakdownOf (snd st) d u)"
  by (simp add: breakdownOf_def accumulateDay_def Let_def getOrZero_def split: option.splits)

lemma breakdownOf_foldl_accumulateDay:
  "distinct (map date ds) \<Longrightarrow>
   breakdownOf (snd (foldl (accumulateDay u') st ds)) d u =
     (if u = u' \<and> d \<in> date ` set ds
      then (case find (\<lambda>x. date x = d) ds of None \<Rightarrow> 0 | Some x \<Rightarrow> contributionCount x)
      else breakdownOf (snd st) d u)"
proof (induction ds arbitrary: st)
  case Nil
  then show ?case by simp
next
  case (Cons a ds)
  then have IH: "breakdownOf (snd (foldl (accumulateDay u') (accumulateDay u' st a) ds)) d u =
     (if u = u' \<and> d \<in> date ` set ds
      then (case find (\<lambda>x. date x = d) ds of None \<Rightarrow> 0 | Some x \<Rightarrow> contributionCount x)
      else breakdownOf (snd (accumulateDay u' st a)) d u)"
    by simp
  from Cons.prems have notin: "date a \<notin> date ` set ds" by simp
  show ?case
  proof (cases "date a = d")
    case True
    with notin have "d \<notin> date ` set ds" by simp
    with True IH show ?thesis
      by (simp add: breakdownOf_accumulateDay)
  next
    case False
    with IH show ?thesis
      by (simp add: breakdownOf_accumulateDay)
  qed
qed

lemma foldl_weeks_days:
  "foldl (\<lambda>st1 wk. foldl f st1 (contributionDays wk)) st ws =
     foldl f st (concat (map contributionDays ws))"
  by (induction ws arbitrary: st) simp_all

lemma accumulateCalendar_allDays:
  "accumulateCalendar u st cal = foldl (accumulateDay u) st (allDays cal)"
  by (simp add: accumulateCalendar_def allDays_def foldl_weeks_days)

lemma countOn_absent: "d \<notin> date ` set (allDays cal) \<Longrightarrow> countOn cal d = 0"
proof -
  assume "d \<notin> date ` set (allDays cal)"
  then have "find (\<lambda>x. date x = d) (allDays cal) = None"
    by (auto simp: find_None_iff)
  then show ?thesis by (simp add: countOn_def)
qed

lemma breakdownOf_accumulateCalendar:
  "distinct (map date (allDays cal)) \<Longrightarrow>
   breakdownOf (snd (accumulateCalendar u' st cal)) d u =
     (if u = u' \<and> d \<in> date ` set (allDays cal) then countOn cal d else breakdownOf (snd st) d u)"
  by (simp add: accumulateCalendar_allDays breakdownOf_foldl_accumulateDay countOn_def)

lemma breakdownOf_foldl_zip:
  "distinct (map fst ucs) \<Longrightarrow> \<forall>(u, cal) \<in> set ucs. distinct (map date (allDays cal)) \<Longrightarrow>
   breakdownOf (snd (foldl (\<lambda>st (u, cal). accumulateCalendar u st cal) st ucs)) d u =
     (case map_of ucs u of
        None \<Rightarrow> breakdownOf (snd st) d u
      | Some cal \<Rightarrow> if d \<in> date ` set (allDays cal) then countOn cal d else breakdownOf (snd st) d u)"
proof (induction ucs arbitrary: st)
  case Nil
  then show ?case by simp
next
  case (Cons p ucs)
  obtain u' cal where p: "p = (u', cal)" by (cases p)
  from Cons.prems p have d1: "distinct (map fst ucs)" and nin: "u' \<notin> fst ` set ucs"
    and d2: "\<forall>(u, cal) \<in> set ucs. distinct (map date (allDays cal))"
    and dc: "distinct (map date (allDays cal))"
    by auto
  from nin have none: "map_of ucs u' = None"
    by (simp add: map_of_eq_None_iff)
  note IH = Cons.IH [OF d1 d2, of "accumulateCalendar u' st cal"]
  show ?case
  proof (cases "u = u'")
    case True
    with IH none show ?thesis
      by (simp add: p breakdownOf_accumulateCalendar [OF dc])
  next
    case False
    with IH show ?thesis
      by (simp add: p breakdownOf_accumulateCalendar [OF dc] split: option.splits)
  qed
qed

lemma foldl_enumerate_zip:
  "n + length cals \<le> length usernames \<Longrightarrow>
   foldl (\<lambda>st (idx, cal). accumulateCalendar (usernameAt usernames idx) st cal) st (enumerate n cals) =
   foldl (\<lambda>st (u, cal). accumulateCalendar u st cal) st (zip (drop n usernames) cals)"
proof (induction cals arbitrary: st n)
  case Nil
  then show ?case by simp
next
  case (Cons c cals)
  then have n: "n < length usernames" by simp
  then have dr: "drop n usernames = usernames ! n # drop (Suc n) usernames"
    by (simp add: Cons_nth_drop_Suc)
  from Cons.prems have "Suc n + length cals \<le> length usernames" by simp
  from Cons.IH [OF this] n show ?case
    by (simp add: dr usernameAt_def)
qed

lemma breakdownOf_accumulateAll:
  assumes len: "length usernames = length dataArray"
    and du: "distinct usernames"
    and dd: "\<forall>cal \<in> set dataArray. distinct (map date (allDays cal))"
  shows "sum_list (map (breakdownOf (snd (accumulateAll dataArray usernames)) d) usernames) =
         sum_list (map (\<lambda>cal. countOn cal d) dataArray)"
proof -
  let ?ucs = "zip usernames dataArray"
  have st: "accumulateAll dataArray usernames =
      foldl (\<lambda>st (u, cal). accumulateCalendar u st cal) (Map.empty, Map.empty) ?ucs"
    using foldl_enumerate_zip [of 0 dataArray usernames] len by (simp add: accumulateAll_def)
  have fst_ucs: "map fst ?ucs = usernames" and snd_ucs: "map snd ?ucs = dataArray"
    using len by simp_all
  have d1: "distinct (map fst ?ucs)" using du fst_ucs by simp
  have d2: "\<forall>(u, cal) \<in> set ?ucs. distinct (map date (allDays cal))"
    using dd by (auto dest: set_zip_rightD)
  have each: "breakdownOf (snd (accumulateAll dataArray usernames)) d u = countOn cal d"
    if "(u, cal) \<in> set ?ucs" for u cal
  proof -
    from that d1 have "map_of ?ucs u = Some cal" by simp
    then show ?thesis
      unfolding st breakdownOf_foldl_zip [OF d1 d2]
      by (simp add: countOn_absent breakdownOf_def)
  qed
  have "map (breakdownOf (snd (accumulateAll dataArray usernames)) d) (map fst ?ucs) =
        map (\<lambda>cal. countOn cal d) (map snd ?ucs)"
    using each by (auto simp: comp_def)
  then show ?thesis
    by (simp only: fst_ucs snd_ucs)
qed

text \<open>
  Claim C1. For every merged series the merge returns, \<^verbatim>\<open>totalContributions\<close> is the sum
  of the counts of all days of its weeks; and when every input series holds each of its
  dates once, the count of every merged day is the sum, over the input accounts, of the
  count that account's series holds for the day's date (0 for an account without that
  date). When moreover the account names are distinct and label the series one to one,
  that sum is also the sum over the accounts of their entries in the per-date breakdown
  of the merged series.
\<close>

theorem merge_sum_invariant:
  "mergeContributions dataArray usernames = Some m \<Longrightarrow>
     totalContributions m = sum_list (map contributionCount (allDays m)) \<and>
     ((\<forall>cal \<in> set dataArray. distinct (map date (allDays cal))) \<longrightarrow>
        (\<forall>md \<in> set (allDays m).
           contributionCount md = sum_list (map (\<lambda>cal. countOn cal (date md)) dataArray))) \<and>
     ((\<forall>cal \<in> set dataArray. distinct (map date (allDays cal))) \<and>
      distinct usernames \<and> length usernames = length dataArray \<longrightarrow>
        (\<forall>md \<in> set (allDays m).
           contributionCount md =
             sum_list (map (breakdownOf (userContributions m) (date md)) usernames)))"
proof -
  assume some: "mergeContributions dataArray usernames = Some m"
  then obtain template rest where da: "dataArray = template # rest"
    and m: "m = walkTemplate template (fst (accumulateAll dataArray usernames))
                  (snd (accumulateAll dataArray usernames))"
    by (auto simp: mergeContributions_def Let_def split: list.splits)
  have uc: "userContributions m = snd (accumulateAll dataArray usernames)"
    by (simp add: m walkTemplate_def Let_def)
  have total: "totalContributions m = sum_list (map contributionCount (allDays m))"
    unfolding m by (rule total_is_sum)
  have each: "\<forall>md \<in> set (allDays m).
           contributionCount md = sum_list (map (\<lambda>cal. countOn cal (date md)) dataArray)"
    if dist: "\<forall>cal \<in> set dataArray. distinct (map date (allDays cal))"
    unfolding m allDays_walkTemplate
    using getOrZero_accumulateAll_countOn [OF dist]
    by (auto simp: contributionCount_mergeDay date_mergeDay)
  have breakdown: "\<forall>md \<in> set (allDays m).
           contributionCount md =
             sum_list (map (breakdownOf (userContributions m) (date md)) usernames)"
    if "(\<forall>cal \<in> set dataArray. distinct (map date (allDays cal))) \<and>
        distinct usernames \<and> length usernames = length dataArray"
  proof -
    from that have dist: "\<forall>cal \<in> set dataArray. distinct (map date (allDays cal))"
      and du: "distinct usernames" and len: "length usernames = length dataArray"
      by simp_all
    from each [OF dist] breakdownOf_accumulateAll [OF len du dist] show ?thesis
      by (simp add: uc)
  qed
  from total each breakdown show ?thesis by blast
qed

theorem merge_sum_invariant_witness:
  "mergeContributions [calendarA, calendarB] [''a'', ''b''] \<noteq> None \<and>
   distinct (map date (allDays calendarA)) \<and> distinct (map date (allDays calendarB)) \<and>
   distinct [''a'', ''b''] \<and> length [''a'', ''b''] = length [calendarA, calendarB] \<and>
   totalContributions (the (mergeContributions [calendarA, calendarB] [''a'', ''b''])) = 11 \<and>
   map contributionCount (allDays (the (mergeContributions [calendarA, calendarB] [''a'', ''b''])))
     = [10, 1] \<and>
   map (\<lambda>d. sum_list (map (\<lambda>cal. countOn cal d) [calendarA, calendarB]))
     [''2024-06-01'', ''2024-06-02''] = [10, 1] \<and>
   map (\<lambda>d. sum_list (map (breakdownOf
            (userContributions (the (mergeContributions [calendarA, calendarB] [''a'', ''b''])))
            d) [''a'', ''b'']))
     [''2024-06-01'', ''2024-06-02''] = [10, 1]"
proof -
  obtain m where some: "mergeContributions [calendarA, calendarB] [''a'', ''b''] = Some m"
    by (simp add: mergeContributions_def Let_def)
  have dist: "\<forall>cal \<in> set [calendarA, calendarB]. distinct (map date (allDays cal))"
    by (simp add: calendarA_def calendarB_def allDays_def)
  have names: "distinct [''a'', ''b''] \<and> length [''a'', ''b''] = length [calendarA, calendarB]"
    by simp
  from some have m: "m = walkTemplate calendarA
      (fst (accumulateAll [calendarA, calendarB] [''a'', ''b'']))
      (snd (accumulateAll [calendarA, calendarB] [''a'', ''b'']))"
    by (simp add: mergeContributions_def Let_def)
  have "map date (allDays calendarA) = [''2024-06-01'', ''2024-06-02'']"
    by (simp add: allDays_def calendarA_def)
  then have dates: "map date (allDays m) = [''2024-06-01'', ''2024-06-02'']"
    unfolding m allDays_walkTemplate by (simp add: comp_def date_mergeDay)
  have sums: "map (\<lambda>d. sum_list (map (\<lambda>cal. countOn cal d) [calendarA, calendarB]))
     [''2024-06-01'', ''2024-06-02''] = [10, 1]"
    by (simp add: countOn_def allDays_def calendarA_def calendarB_def)
  from merge_sum_invariant [OF some] dist names
  have total: "totalContributions m = sum_list (map contributionCount (allDays m))"
    and each: "\<forall>md \<in> set (allDays m).
           contributionCount md = sum_list (map (\<lambda>cal. countOn cal (date md)) [calendarA, calendarB])"
    and breakdown: "\<forall>md \<in> set (allDays m).
           contributionCount md =
             sum_list (map (breakdownOf (userContributions m) (date md)) [''a'', ''b''])"
    by blast+
  from each have "map contributionCount (allDays m) =
      map (\<lambda>d. sum_list (map (\<lambda>cal. countOn cal d) [calendarA, calendarB])) (map date (allDays m))"
    by (simp add: comp_def)
  with dates sums have counts: "map contributionCount (allDays m) = [10, 1]"
    by simp
  from breakdown have "map contributionCount (allDays m) =
      map (\<lambda>d. sum_list (map (breakdownOf (userContributions m) d) [''a'', ''b'']))
        (map date (allDays m))"
    by (simp add: comp_def)
  with dates counts have bsums: "map (\<lambda>d. sum_list (map (breakdownOf (userContributions m) d) [''a'', ''b'']))
     [''2024-06-01'', ''2024-06-02''] = [10, 1]"
    by simp
  from counts total have "totalContributions m = 11" by simp
  with some dist names counts sums bsums show ?thesis by simp
qed

text \<open>
  Claim C3. For every non-empty list of input series the merge returns a series whose
  weeks hold exactly the dates of the first input series, week by week and in the same
  order, whatever the other series and the account names are; and the template walk, given
  any per-date map, keeps that structure and gives every day whose date the map lacks the
  count 0 (and the level of 0) instead of failing.
\<close>

theorem template_fidelity:
  "dataArray \<noteq> [] \<Longrightarrow>
     (\<exists>m. mergeContributions dataArray usernames = Some m \<and>
          weekDates (weeks m) = weekDates (weeks (hd dataArray))) \<and>
     (\<forall>contributionMap userContributionData.
        weekDates (weeks (walkTemplate (hd dataArray) contributionMap userContributionData))
          = weekDates (weeks (hd dataArray)) \<and>
        (\<forall>md \<in> set (allDays (walkTemplate (hd dataArray) contributionMap userContributionData)).
           contributionMap (date md) = None \<longrightarrow>
             contributionCount md = 0 \<and> contributionLevel md = ''NONE''))"
proof -
  assume ne: "dataArray \<noteq> []"
  have dates: "weekDates (weeks (walkTemplate t cm ucd)) = weekDates (weeks t)"
    for t :: "day calendar" and cm ucd
    by (simp add: weekDates_def weeks_walkTemplate comp_def date_mergeDay)
  have absent: "\<forall>md \<in> set (allDays (walkTemplate t cm ucd)).
      cm (date md) = None \<longrightarrow> contributionCount md = 0 \<and> contributionLevel md = ''NONE''"
    for t :: "day calendar" and cm ucd
    by (auto simp: allDays_walkTemplate mergeDay_def Let_def getOrZero_def getLevel_def)
  from ne obtain template rest where da: "dataArray = template # rest"
    by (cases dataArray) auto
  have "\<exists>m. mergeContributions dataArray usernames = Some m \<and>
          weekDates (weeks m) = weekDates (weeks (hd dataArray))"
    by (simp add: da mergeContributions_def Let_def dates)
  with dates absent show ?thesis by blast
qed

theorem template_fidelity_witness:
  "[calendarA, calendarB] \<noteq> [] \<and>
   weekDates (weeks (the (mergeContributions [calendarA, calendarB] [''a'', ''b''])))
     = [[''2024-06-01''], [''2024-06-02'']] \<and>
   map contributionCount (allDays (walkTemplate calendarA Map.empty Map.empty)) = [0, 0]"
proof -
  have ne: "[calendarA, calendarB] \<noteq> []" by simp
  have tmpl: "weekDates (weeks calendarA) = [[''2024-06-01''], [''2024-06-02'']]"
    by (simp add: weekDates_def calendarA_def)
  from template_fidelity [OF ne, of "[''a'', ''b'']"] obtain m
    where some: "mergeContributions [calendarA, calendarB] [''a'', ''b''] = Some m"
      and wd: "weekDates (weeks m) = weekDates (weeks calendarA)"
      and absent: "\<forall>md \<in> set (allDays (walkTemplate calendarA Map.empty Map.empty)).
         contributionCount md = 0"
    by fastforce
  have len: "length (allDays (walkTemplate calendarA Map.empty Map.empty)) = 2"
    unfolding allDays_walkTemplate by (simp add: allDays_def calendarA_def)
  from absent len have "map contributionCount (allDays (walkTemplate calendarA Map.empty Map.empty))
      = [0, 0]"
    by (auto simp: length_Suc_conv numeral_2_eq_2)
  with some wd tmpl show ?thesis by simp
qed

section \<open>Escaping\<close>

lemma markupSafe_escapeChar:
  "markupSafe rest \<Longrightarrow> markupSafe (escapeChar c @ rest)"
  by (simp add: escapeChar_def startsEntity_def)

lemma markupSafe_escapeXml: "markupSafe (escapeXml str)"
  by (induction str) (simp_all add: escapeXml_def markupSafe_escapeChar)

lemma markupSafe_no_raw:
  "markupSafe s \<Longrightarrow> set s \<inter> {CHR ''<'', CHR ''>'', CHR 0x27, CHR 0x22} = {}"
  by (induction s) (auto split: if_splits)

lemma unescapeXml_escapeChar:
  "unescapeXml (escapeChar c @ rest) = c # unescapeXml rest"
  by (simp add: escapeChar_def)

lemma unescapeXml_escapeXml: "unescapeXml (escapeXml str) = str"
  by (induction str) (simp_all add: escapeXml_def unescapeXml_escapeChar)

lemma ends_with_step: "\<exists>h. X = h @ S \<Longrightarrow> \<exists>h. p @ X = h @ S"
  by (metis append_assoc)

lemma ends_with_base: "\<exists>h. S = h @ S"
  by (metis append_Nil)

lemma generateCompleteSVG_header:
  \<open>\<exists>head. generateCompleteSVG w h usernames graphSVGs theme padding =
     head @ ''  <text x="'' @ showNat padding @ ''" y="'' @ showNat (padding + 16) @
     ''" class="header-label">'' @ escapeXml (''Users - '' @ join '', '' usernames) @
     ''</text>\<newline>'' @ ''  '' @ join ''\<newline>'' graphSVGs @ ''\<newline>'' @ ''</svg>''\<close>
  unfolding generateCompleteSVG_def Let_def
  by (rule ends_with_base | rule ends_with_step)+

lemma renderCell_escaped:
  \<open>\<exists>head. renderCell cal usernames xOffset yOffset theme padding weekIdx dayIdx d =
     head @ ''" data-date="'' @ escapeXml (date d) @ ''" data-count="'' @
     showNat (contributionCount d) @ ''">\<newline>'' @ ''  <title>'' @
     escapeXml (generateTooltipContent (date d)
        (case userContributions cal (date d) of Some m \<Rightarrow> m | None \<Rightarrow> Map.empty) usernames) @
     ''</title>\<newline>'' @ ''</rect>\<newline>''\<close>
  unfolding renderCell_def Let_def append_assoc
  by (rule ends_with_base | rule ends_with_step)+

lemma join_Cons: "join sep (x # xs) = x @ concat (map (\<lambda>y. sep @ y) xs)"
  by (induction xs arbitrary: x) simp_all

lemma generateSVGVertical_usernames:
  "\<exists>w h graphSVGs. generateSVGVertical yearData usernames theme =
      generateCompleteSVG w h usernames graphSVGs theme 10"
  unfolding generateSVGVertical_def Let_def by blast

lemma monthNames_shape:
  "i < 12 \<Longrightarrow>
     monthNames ! i \<noteq> [] \<and> \<not> isWhiteSpace (hd (monthNames ! i)) \<and> markupSafe (monthNames ! i)"
proof -
  have "list_all (\<lambda>s. s \<noteq> [] \<and> \<not> isWhiteSpace (hd s) \<and> markupSafe s) monthNames"
    by (simp add: monthNames_def isWhiteSpace_def)
  moreover have "length monthNames = 12"
    by (simp add: monthNames_def)
  moreover assume "i < 12"
  ultimately show ?thesis
    by (simp add: list_all_length)
qed

lemma monthShort_shape:
  "monthShort d \<noteq> [] \<and> \<not> isWhiteSpace (hd (monthShort d)) \<and> markupSafe (monthShort d)"
proof (cases "parseIsoDate d")
  case None
  then show ?thesis by (simp add: monthShort_def isWhiteSpace_def)
next
  case (Some a)
  then obtain y m k where a: "parseIsoDate d = Some (y, m, k)" by (cases a) auto
  then have "m - 1 < 12"
    by (auto simp: parseIsoDate_def split: if_splits option.splits)
  from monthNames_shape [OF this] a show ?thesis
    by (simp add: monthShort_def)
qed

text \<open>
  Claim C9. The document ends with the header element followed by the year graphs, and
  the text of the header element is the escaped string that starts with \<^verbatim>\<open>Users - \<close> and
  lists the account names in the order given, each after the first preceded by a comma
  and a space; the vertical layout passes its account names to the document unchanged.
\<close>

theorem header_text:
  \<open>(\<exists>head. generateCompleteSVG w h usernames graphSVGs theme padding =
     head @ ''  <text x="'' @ showNat padding @ ''" y="'' @ showNat (padding + 16) @
     ''" class="header-label">'' @ escapeXml (''Users - '' @ join '', '' usernames) @
     ''</text>\<newline>'' @ ''  '' @ join ''\<newline>'' graphSVGs @ ''\<newline>'' @ ''</svg>'') \<and>
   join '', '' [] = [] \<and>
   join '', '' (u # us) = u @ concat (map (\<lambda>v. '', '' @ v) us) \<and>
   escapeXml (''Users - '' @ join '', '' [''alice'', ''b<ob'', ''c&d'']) =
     ''Users - alice, b&lt;ob, c&amp;d'' \<and>
   (\<exists>w' h' graphSVGs'. generateSVGVertical yearData usernames theme =
      generateCompleteSVG w' h' usernames graphSVGs' theme 10)\<close>
proof -
  have ex: \<open>escapeXml (''Users - '' @ join '', '' [''alice'', ''b<ob'', ''c&d'']) =
     ''Users - alice, b&lt;ob, c&amp;d''\<close>
    by (simp add: escapeXml_def escapeChar_def)
  show ?thesis
    using generateCompleteSVG_header [of w h usernames graphSVGs theme padding]
      join_Cons [of "'', ''" u us] ex generateSVGVertical_usernames [of yearData usernames theme]
    by simp
qed

section \<open>Theme resolution\<close>

lemma themeColorsOf_registered:
  "map_of themeTable name = Some t \<Longrightarrow> themeColorsOf name = Theme t"
  by (simp add: themeColorsOf_def THEMES_def)

lemma THEMES_dark: "THEMES ''dark'' = Theme dark"
  by (simp add: THEMES_def themeTable_def dark_def)

lemma theme_fallback_unknown:
  assumes "name \<notin> set validThemes" and "name \<notin> set objectPrototypeKeys"
  shows "themeColorsOf name = Theme dark"
    and "getLevelColor level name = getLevelColor level ''dark''"
proof -
  from assms(1) have "map_of themeTable name = None"
    by (simp add: validThemes_def themeTable_def)
  with assms(2) have u: "THEMES name = Undefined"
    by (simp add: THEMES_def)
  then show "themeColorsOf name = Theme dark"
    by (simp add: themeColorsOf_def THEMES_dark)
  from u show "getLevelColor level name = getLevelColor level ''dark''"
    by (simp add: getLevelColor_def THEMES_dark)
qed


section \<open>Tooltips\<close>

lemma foldl_append_lines:
  "foldl (\<lambda>content u. content @ f u @ sep) init us = init @ concat (map (\<lambda>u. f u @ sep) us)"
  by (induction us arbitrary: init) simp_all

lemma join_snoc_sep:
  "join sep (x # xs) @ sep = x @ sep @ concat (map (\<lambda>y. y @ sep) xs)"
  by (induction xs arbitrary: x) simp_all

lemma trim_final_newline:
  assumes "s \<noteq> []" and "\<not> isWhiteSpace (hd s)" and "\<not> isWhiteSpace (last s)"
  shows "trim (s @ ''\<newline>'') = s"
proof -
  from assms(1,2) have "dropWhile isWhiteSpace (s @ ''\<newline>'') = s @ ''\<newline>''"
    by (cases s) simp_all
  moreover have "isWhiteSpace (CHR 0x0A)"
    by (simp add: isWhiteSpace_def)
  moreover from assms(1,3) have "dropWhile isWhiteSpace (rev s) = rev s"
    by (cases s rule: rev_cases) simp_all
  ultimately show ?thesis
    by (simp add: trim_def)
qed

lemma join_last_nonempty: "last (x # xs) \<noteq> [] \<Longrightarrow> join sep (x # xs) \<noteq> []"
  by (induction xs arbitrary: x) (simp_all split: if_splits)

lemma last_join:
  "last (x # xs) \<noteq> [] \<Longrightarrow> last (join sep (x # xs)) = last (last (x # xs))"
proof (induction xs arbitrary: x)
  case Nil
  then show ?case by simp
next
  case (Cons a xs)
  then have ne: "last (a # xs) \<noteq> []" by simp
  then have "join sep (a # xs) \<noteq> []" by (rule join_last_nonempty)
  with Cons.IH [OF ne] show ?case by simp
qed

lemma hd_join: "x \<noteq> [] \<Longrightarrow> hd (join sep (x # xs)) = hd x"
  by (cases xs) simp_all

lemma join_nonempty: "x \<noteq> [] \<Longrightarrow> join sep (x # xs) \<noteq> []"
  by (cases xs) simp_all

lemma tooltipLine_end:
  "tooltipLine uc u \<noteq> [] \<and> \<not> isWhiteSpace (last (tooltipLine uc u))"
  by (simp add: tooltipLine_def isWhiteSpace_def split: property.splits)

lemma tooltip_last_line:
  "last ((formatDate d @ '':'') # map (tooltipLine uc) us) \<noteq> [] \<and>
   \<not> isWhiteSpace (last (last ((formatDate d @ '':'') # map (tooltipLine uc) us)))"
proof (cases us rule: rev_cases)
  case Nil
  then show ?thesis by (simp add: isWhiteSpace_def)
next
  case (snoc vs v)
  then show ?thesis using tooltipLine_end [of uc v] by simp
qed

lemma generateTooltipContent_lines:
  "generateTooltipContent d uc us = join ''\<newline>'' ((formatDate d @ '':'') # map (tooltipLine uc) us)"
proof -
  let ?h = "formatDate d @ '':''"
  let ?ls = "map (tooltipLine uc) us"
  let ?j = "join ''\<newline>'' (?h # ?ls)"
  have content: "foldl (\<lambda>content u. content @ tooltipLine uc u @ ''\<newline>'') (formatDate d @ '':\<newline>'') us
      = ?j @ ''\<newline>''"
    by (simp add: foldl_append_lines join_snoc_sep comp_def)
  have h: "?h \<noteq> []" by simp
  have hdh: "hd ?j = hd (monthShort d)"
    using monthShort_shape [of d] by (simp add: hd_join formatDate_def Let_def)
  have lastj: "\<not> isWhiteSpace (last ?j)"
    using tooltip_last_line [of d uc us] last_join [of ?h ?ls "''\<newline>''"] by simp
  have "trim (?j @ ''\<newline>'') = ?j"
    using join_nonempty [OF h] hdh monthShort_shape [of d] lastj
    by (intro trim_final_newline) simp_all
  with content show ?thesis
    by (simp add: generateTooltipContent_def)
qed

lemma formatDate_valid:
  "parseIsoDate d = Some (y, m, k) \<Longrightarrow> formatDate d = monthNames ! (m - 1) @ '' '' @ showNat k"
  by (simp add: formatDate_def monthShort_def getDate_def)

lemma digitChar_nonzero: "0 < n \<Longrightarrow> n < 10 \<Longrightarrow> digitChar n \<noteq> CHR ''0''"
proof -
  assume n: "0 < n" "n < 10"
  have d: "distinct ''0123456789''" by simp
  have "(''0123456789'' ! n = ''0123456789'' ! 0) = (n = 0)"
    using n by (intro nth_eq_iff_index_eq [OF d]) simp_all
  with n show ?thesis by (simp add: digitChar_def)
qed

lemma showNat_no_leading_zero: "0 < n \<Longrightarrow> hd (showNat n) \<noteq> CHR ''0''"
proof (induction n rule: showNat.induct)
  case (1 n)
  show ?case
  proof (cases "n < 10")
    case True
    with 1 digitChar_nonzero [of n] show ?thesis
      by (subst showNat.simps) simp
  next
    case False
    then have "0 < n div 10" by simp
    with 1 False have "hd (showNat (n div 10)) \<noteq> CHR ''0''" by simp
    moreover have "showNat (n div 10) \<noteq> []"
      by (subst showNat.simps) simp
    ultimately show ?thesis using False
      by (subst showNat.simps) simp
  qed
qed

lemma tooltipLine_cases:
  "(uc u = Some 0 \<or> (uc u = None \<and> u \<notin> set objectPrototypeKeys) \<longrightarrow>
      tooltipLine uc u = u @ '' no contributions'') \<and>
   (uc u = Some 1 \<longrightarrow> tooltipLine uc u = u @ '' 1 contribution'') \<and>
   (\<forall>c. uc u = Some c \<and> 2 \<le> c \<longrightarrow> tooltipLine uc u = u @ '' '' @ showNat c @ '' contributions'')"
  by (auto simp: tooltipLine_def getProperty_def showNat.simps [of "Suc 0"] digitChar_def)

text \<open>
  Claim C6, as the code has it. The tooltip is the lines joined with newlines, with no
  white space after the last line: the first line is the formatted date followed by a
  colon, and one line per account follows in the order of the account list. For a date
  \<^verbatim>\<open>YYYY-MM-DD\<close> the formatted date is the short month name, a space and the day of the
  month without a leading zero. An account's line reads \<^verbatim>\<open>no contributions\<close> when its
  breakdown value is 0, and when the account has no entry in the breakdown and its name is
  not the name of a member all objects inherit; \<^verbatim>\<open>1 contribution\<close> when the value is 1;
  the count and \<^verbatim>\<open>contributions\<close> for every larger value.
\<close>

theorem tooltip_content:
  "generateTooltipContent d uc us =
     join ''\<newline>'' ((formatDate d @ '':'') # map (tooltipLine uc) us) \<and>
   \<not> isWhiteSpace (last (generateTooltipContent d uc us)) \<and>
   (\<forall>y m k. parseIsoDate d = Some (y, m, k) \<longrightarrow>
      formatDate d = monthNames ! (m - 1) @ '' '' @ showNat k \<and> hd (showNat k) \<noteq> CHR ''0'') \<and>
   (\<forall>u. uc u = Some 0 \<or> (uc u = None \<and> u \<notin> set objectPrototypeKeys) \<longrightarrow>
      tooltipLine uc u = u @ '' no contributions'') \<and>
   (\<forall>u. uc u = Some 1 \<longrightarrow> tooltipLine uc u = u @ '' 1 contribution'') \<and>
   (\<forall>u c. uc u = Some c \<and> 2 \<le> c \<longrightarrow>
      tooltipLine uc u = u @ '' '' @ showNat c @ '' contributions'')"
proof -
  have day: "hd (showNat k) \<noteq> CHR ''0''" if "parseIsoDate d = Some (y, m, k)" for y m k
  proof -
    from that have "0 < k"
      by (auto simp: parseIsoDate_def split: if_splits option.splits)
    then show ?thesis by (rule showNat_no_leading_zero)
  qed
  have "last (generateTooltipContent d uc us) = last (last ((formatDate d @ '':'') # map (tooltipLine uc) us))"
    unfolding generateTooltipContent_lines by (rule last_join) (rule tooltip_last_line [THEN conjunct1])
  with tooltip_last_line [of d uc us]
  have nows: "\<not> isWhiteSpace (last (generateTooltipContent d uc us))"
    by simp
  from generateTooltipContent_lines [of d uc us] nows day formatDate_valid [of d]
    tooltipLine_cases [of uc]
  show ?thesis by blast
qed

theorem tooltip_content_witness:
  "parseIsoDate ''2024-06-01'' = Some (2024, 6, 1) \<and>
   generateTooltipContent ''2024-06-01'' [''a'' \<mapsto> 3, ''b'' \<mapsto> 1, ''z'' \<mapsto> 0] [''a'', ''b'', ''c'', ''z''] =
     ''Jun 1:\<newline>a 3 contributions\<newline>b 1 contribution\<newline>c no contributions\<newline>z no contributions''"
proof -
  let ?uc = "[''a'' \<mapsto> 3, ''b'' \<mapsto> 1, ''z'' \<mapsto> (0::nat)]"
  note t = tooltip_content [of "''2024-06-01''" ?uc "[''a'', ''b'', ''c'', ''z'']"]
  have p: "parseIsoDate ''2024-06-01'' = Some (2024, 6, 1)"
    by code_simp
  with t have f: "formatDate ''2024-06-01'' = monthNames ! (6 - 1) @ '' '' @ showNat 1"
    by blast
  have "?uc ''a'' = Some 3 \<and> (2::nat) \<le> 3" by simp
  with t have a: "tooltipLine ?uc ''a'' = ''a'' @ '' '' @ showNat 3 @ '' contributions''"
    by blast
  have "?uc ''b'' = Some 1" by simp
  with t have b: "tooltipLine ?uc ''b'' = ''b'' @ '' 1 contribution''"
    by blast
  have "?uc ''c'' = None \<and> ''c'' \<notin> set objectPrototypeKeys"
    by (simp add: objectPrototypeKeys_def)
  with t have c: "tooltipLine ?uc ''c'' = ''c'' @ '' no contributions''"
    by blast
  have "?uc ''z'' = Some 0" by simp
  with t have z: "tooltipLine ?uc ''z'' = ''z'' @ '' no contributions''"
    by blast
  from t have lines: "generateTooltipContent ''2024-06-01'' ?uc [''a'', ''b'', ''c'', ''z''] =
     join ''\<newline>'' ((formatDate ''2024-06-01'' @ '':'') # map (tooltipLine ?uc) [''a'', ''b'', ''c'', ''z''])"
    by blast
  have "join ''\<newline>'' ((formatDate ''2024-06-01'' @ '':'') # map (tooltipLine ?uc) [''a'', ''b'', ''c'', ''z'']) =
     ''Jun 1:\<newline>a 3 contributions\<newline>b 1 contribution\<newline>c no contributions\<newline>z no contributions''"
    apply (simp only: list.map f a b c z)
    apply (simp add: monthNames_def showNat.simps digitChar_def)
    done
  with lines p show ?thesis
    by (simp only: simp_thms)
qed

text \<open>The first line of a tooltip is not the formatted date alone: a colon follows it.\<close>

theorem tooltip_first_line_counterexample:
  "formatDate ''2024-06-01'' = ''Jun 1'' \<and>
   generateTooltipContent ''2024-06-01'' [''a'' \<mapsto> 3] [''a''] = ''Jun 1:\<newline>a 3 contributions'' \<and>
   takeWhile (\<lambda>c. c \<noteq> CHR 0x0A) (generateTooltipContent ''2024-06-01'' [''a'' \<mapsto> 3] [''a''])
     \<noteq> formatDate ''2024-06-01''"
  by (simp add: generateTooltipContent_lines formatDate_def monthShort_def getDate_def
      parseIsoDate_def numberOf_def digitValue_def daysInMonth_def isLeapYear_def monthNames_def
      tooltipLine_def getProperty_def showNat.simps digitChar_def)

section \<open>The request handler: order of checks, years, accounts\<close>

lemma foldl_push_filter:
  "foldl (\<lambda>acc x. if P x then acc @ [x] else acc) acc xs = acc @ filter P xs"
  by (induction xs arbitrary: acc) simp_all

lemma authorizedUsersOf_eq:
  "authorizedUsersOf w token p adds = p # filter (\<lambda>u. verifyUserAuthorization w u p token) adds"
  by (simp add: authorizedUsersOf_def foldl_push_filter)

lemma additionalUsersOf_set:
  "u \<in> set (additionalUsersOf mp p) \<Longrightarrow> u \<noteq> [] \<and> u \<noteq> p"
  by (auto simp: additionalUsersOf_def split: if_splits)

lemma yearsLoop_eq:
  "yearsLoop thisYear n i ys =
     ys @ filter (\<lambda>y. 2008 \<le> y) (map (\<lambda>k. thisYear - k) [i .. n - 1])"
proof (induction thisYear n i ys rule: yearsLoop.induct)
  case (1 thisYear n i ys)
  show ?case
  proof (cases "i < n")
    case False
    then show ?thesis by (subst yearsLoop.simps) simp
  next
    case True
    then have up: "[i .. n - 1] = i # [i + 1 .. n - 1]"
      by (simp add: upto_rec1)
    show ?thesis
    proof (cases "thisYear - i < 2008")
      case old: True
      have "filter (\<lambda>y. 2008 \<le> y) (map (\<lambda>k. thisYear - k) [i .. n - 1]) = []"
        using old by (auto simp: filter_empty_conv)
      with True old show ?thesis
        by (subst yearsLoop.simps) simp
    next
      case recent: False
      with True 1 [OF True refl recent] up show ?thesis
        by (subst yearsLoop.simps) simp
    qed
  qed
qed

lemma yearsLoop_countingBack: "yearsLoop thisYear n 0 [] = yearsCountingBack thisYear n"
  by (simp add: yearsLoop_eq yearsCountingBack_def)

lemma hd_generateSVGVertical: "hd (generateSVGVertical yearData usernames theme) = CHR ''<''"
  by (simp add: generateSVGVertical_def generateCompleteSVG_def Let_def split_beta)

lemma handler_config_error:
  "\<not> truthy (GITHUB_TOKEN e) \<or> \<not> truthy (PRIMARY_USER e) \<Longrightarrow>
     fst (fetchHandler w e req) = [] \<and> status (snd (fetchHandler w e req)) = 500"
  by (auto simp: fetchHandler_def textResponse_def Let_def)

lemma handler_after_config:
  assumes "truthy (GITHUB_TOKEN e)" and "truthy (PRIMARY_USER e)"
  shows "fetchHandler w e req =
     (if orElse (queryTheme req) ''dark'' \<notin> set validThemes
      then (authorizationCalls e req, textResponse 400 invalidThemeMessage)
      else (case parseYears (queryYears req) (currentYear w) of
              Inl rejected \<Rightarrow> (authorizationCalls e req, rejected)
            | Inr years \<Rightarrow>
                (authorizationCalls e req @ fetchCalls w e req years,
                 case those (map (fetchYear w (tokenOf e) (requestAuthorizedUsers w e req)) years) of
                   None \<Rightarrow> textResponse 500 ''An error occurred while generating the contribution graph''
                 | Some yearData \<Rightarrow>
                     \<lparr>status = 200, contentType = ''image/svg+xml'',
                      body = generateSVGVertical yearData (requestAuthorizedUsers w e req)
                               (orElse (queryTheme req) ''dark'')\<rparr>)))"
proof -
  have ne: "length (requestAuthorizedUsers w e req) \<noteq> 0"
    by (simp add: requestAuthorizedUsers_def authorizedUsersOf_eq)
  show ?thesis
    using assms ne
    unfolding fetchHandler_def Let_def
    by (simp add: authorizationCalls_def fetchCalls_def requestAuthorizedUsers_def
        requestAdditionalUsers_def tokenOf_def primaryUserOf_def
        split: sum.splits option.splits)
qed

lemma parseYears_cases:
  "parseYears yp thisYear =
     (if truthy yp
      then (case parseInt (trim (orElse yp [])) of
              None \<Rightarrow> Inl (textResponse 400 invalidYearsMessage)
            | Some n \<Rightarrow> if n < 1 then Inl (textResponse 400 invalidYearsMessage)
                        else Inr (yearsCountingBack thisYear n))
      else Inr [thisYear])"
  by (simp add: parseYears_def yearsLoop_countingBack split: option.splits)


lemma parseYears_rejected:
  "parseYears yp thisYear = Inl r \<Longrightarrow> r = textResponse 400 invalidYearsMessage"
  by (auto simp: parseYears_cases split: if_splits option.splits)

lemma authorizationCalls_no_fetch: "list_all (\<lambda>c. \<not> isFetchCall c) (authorizationCalls e req)"
  by (simp add: authorizationCalls_def list_all_iff isFetchCall_def)

lemma those_map_Some:
  "(\<And>x. x \<in> set xs \<Longrightarrow> f x \<noteq> None) \<Longrightarrow> \<exists>ys. those (map f xs) = Some ys"
  by (induction xs) (auto split: option.splits)

lemma mergeContributions_Some: "dataArray \<noteq> [] \<Longrightarrow> \<exists>m. mergeContributions dataArray us = Some m"
  by (cases dataArray) (simp_all add: mergeContributions_def Let_def)

lemma those_length: "those xs = Some ys \<Longrightarrow> length ys = length xs"
  by (induction xs arbitrary: ys) (auto split: option.splits)

lemma fetchYear_Some:
  assumes "users \<noteq> []" and "\<And>u. u \<in> set users \<Longrightarrow> fetchContributions w u y t \<noteq> None"
  shows "\<exists>yd. fetchYear w t users y = Some yd"
proof -
  from assms(2) obtain dataArray
    where d: "those (map (\<lambda>u. fetchContributions w u y t) users) = Some dataArray"
    using those_map_Some [of users "\<lambda>u. fetchContributions w u y t"] by blast
  from those_length [OF d] assms(1) have "dataArray \<noteq> []" by auto
  then obtain m where "mergeContributions dataArray users = Some m"
    using mergeContributions_Some by blast
  with d show ?thesis by (simp add: fetchYear_def)
qed

lemma handler_success:
  assumes cfg: "truthy (GITHUB_TOKEN e)" "truthy (PRIMARY_USER e)"
    and th: "orElse (queryTheme req) ''dark'' \<in> set validThemes"
    and ys: "parseYears (queryYears req) (currentYear w) = Inr years"
    and ok: "\<And>u y. fetchContributions w u y (tokenOf e) \<noteq> None"
  shows "status (snd (fetchHandler w e req)) = 200"
proof -
  have ne: "requestAuthorizedUsers w e req \<noteq> []"
    by (simp add: requestAuthorizedUsers_def authorizedUsersOf_eq)
  have "\<exists>yds. those (map (fetchYear w (tokenOf e) (requestAuthorizedUsers w e req)) years) = Some yds"
    by (rule those_map_Some) (use fetchYear_Some [OF ne] ok in \<open>simp add: option.collapse\<close>)
  then show ?thesis
    using th ys by (auto simp: handler_after_config [OF cfg])
qed

lemma body_not_no_users:
  \<open>body (snd (fetchHandler w e req)) \<noteq> ''Error: No authorized users to display''\<close>
proof (cases "truthy (GITHUB_TOKEN e) \<and> truthy (PRIMARY_USER e)")
  case False
  then show ?thesis
    by (auto simp: fetchHandler_def textResponse_def Let_def)
next
  case True
  then have cfg: "truthy (GITHUB_TOKEN e)" "truthy (PRIMARY_USER e)" by simp_all
  have svg: "generateSVGVertical yd us th \<noteq> ''Error: No authorized users to display''" for yd us th
    using hd_generateSVGVertical [of yd us th] by auto
  show ?thesis
    unfolding handler_after_config [OF cfg]
    by (auto simp: textResponse_def invalidThemeMessage_def invalidYearsMessage_def svg
        dest!: parseYears_rejected split: sum.splits option.splits)
qed

text \<open>
  An example for claim C4 as stated: the account \<^verbatim>\<open>bob\<close> is to be merged and the theme
  name is not a valid one. The request is rejected for its theme, and by then the
  authorization check for \<^verbatim>\<open>bob\<close> has been issued.
\<close>

theorem validation_before_fanout_counterexample:
  "orElse (queryTheme (exampleRequest (Some ''bob'') None (Some ''nope''))) ''dark'' \<notin> set validThemes \<and>
   snd (fetchHandler exampleWorld exampleEnv (exampleRequest (Some ''bob'') None (Some ''nope'')))
     = textResponse 400 invalidThemeMessage \<and>
   fst (fetchHandler exampleWorld exampleEnv (exampleRequest (Some ''bob'') None (Some ''nope'')))
     = [VerifyUserAuthorization ''bob'' ''alice'' ''token''] \<and>
   fst (fetchHandler exampleWorld exampleEnv (exampleRequest (Some ''bob'') None (Some ''nope'')))
     \<noteq> []"
proof -
  let ?req = "exampleRequest (Some ''bob'') None (Some ''nope'')"
  have cfg: "truthy (GITHUB_TOKEN exampleEnv)" "truthy (PRIMARY_USER exampleEnv)"
    by (simp_all add: exampleEnv_def truthy_def)
  have bad: "orElse (queryTheme ?req) ''dark'' \<notin> set validThemes"
    by (simp add: exampleRequest_def orElse_def validThemes_def)
  have calls: "authorizationCalls exampleEnv ?req = [VerifyUserAuthorization ''bob'' ''alice'' ''token'']"
    by code_simp
  from bad calls show ?thesis
    by (simp add: handler_after_config [OF cfg])
qed

text \<open>
  Claim C4, as the code has it. A configuration error is reported before any remote call
  is issued. A validation error (a theme name that is not valid, or a years parameter that
  is rejected) is reported with status 400 after the authorization checks of the
  additional accounts have been issued, and before any contribution fetch: the calls
  issued are exactly those authorization checks.
\<close>

theorem validation_before_fetch:
  "(\<not> truthy (GITHUB_TOKEN e) \<or> \<not> truthy (PRIMARY_USER e) \<longrightarrow>
      fst (fetchHandler w e req) = [] \<and> status (snd (fetchHandler w e req)) = 500) \<and>
   (truthy (GITHUB_TOKEN e) \<and> truthy (PRIMARY_USER e) \<and>
    (orElse (queryTheme req) ''dark'' \<notin> set validThemes \<or>
     isl (parseYears (queryYears req) (currentYear w))) \<longrightarrow>
      fst (fetchHandler w e req) = authorizationCalls e req \<and>
      list_all (\<lambda>c. \<not> isFetchCall c) (fst (fetchHandler w e req)) \<and>
      status (snd (fetchHandler w e req)) = 400)"
proof (intro conjI impI)
  assume "\<not> truthy (GITHUB_TOKEN e) \<or> \<not> truthy (PRIMARY_USER e)"
  then show "fst (fetchHandler w e req) = []" "status (snd (fetchHandler w e req)) = 500"
    using handler_config_error by blast+
next
  assume a: "truthy (GITHUB_TOKEN e) \<and> truthy (PRIMARY_USER e) \<and>
    (orElse (queryTheme req) ''dark'' \<notin> set validThemes \<or>
     isl (parseYears (queryYears req) (currentYear w)))"
  then have cfg: "truthy (GITHUB_TOKEN e)" "truthy (PRIMARY_USER e)" by simp_all
  from a have bad: "orElse (queryTheme req) ''dark'' \<notin> set validThemes \<or>
     isl (parseYears (queryYears req) (currentYear w))" by simp
  then show calls: "fst (fetchHandler w e req) = authorizationCalls e req"
    unfolding handler_after_config [OF cfg] by (auto split: sum.splits)
  show "list_all (\<lambda>c. \<not> isFetchCall c) (fst (fetchHandler w e req))"
    unfolding calls by (rule authorizationCalls_no_fetch)
  from bad show "status (snd (fetchHandler w e req)) = 400"
    unfolding handler_after_config [OF cfg]
    by (auto simp: textResponse_def dest!: parseYears_rejected split: sum.splits)
qed

theorem validation_before_fetch_witness:
  "\<not> truthy (GITHUB_TOKEN \<lparr>GITHUB_TOKEN = None, PRIMARY_USER = Some ''alice''\<rparr>) \<and>
   fst (fetchHandler exampleWorld \<lparr>GITHUB_TOKEN = None, PRIMARY_USER = Some ''alice''\<rparr>
          (exampleRequest (Some ''bob'') (Some ''x'') None)) = [] \<and>
   truthy (GITHUB_TOKEN exampleEnv) \<and> truthy (PRIMARY_USER exampleEnv) \<and>
   isl (parseYears (queryYears (exampleRequest (Some ''bob'') (Some ''x'') None)) (currentYear exampleWorld)) \<and>
   fst (fetchHandler exampleWorld exampleEnv (exampleRequest (Some ''bob'') (Some ''x'') None))
     = [VerifyUserAuthorization ''bob'' ''alice'' ''token''] \<and>
   status (snd (fetchHandler exampleWorld exampleEnv (exampleRequest (Some ''bob'') (Some ''x'') None)))
     = 400"
proof -
  let ?req = "exampleRequest (Some ''bob'') (Some ''x'') None"
  let ?noToken = "\<lparr>GITHUB_TOKEN = None, PRIMARY_USER = Some ''alice''\<rparr>"
  have none: "\<not> truthy (GITHUB_TOKEN ?noToken)"
    by (simp add: truthy_def)
  have cfg: "truthy (GITHUB_TOKEN exampleEnv)" "truthy (PRIMARY_USER exampleEnv)"
    by (simp_all add: exampleEnv_def truthy_def)
  have "parseYears (queryYears ?req) (currentYear exampleWorld) = Inl (textResponse 400 invalidYearsMessage)"
    by code_simp
  then have rejected: "isl (parseYears (queryYears ?req) (currentYear exampleWorld))"
    by simp
  have calls: "authorizationCalls exampleEnv ?req = [VerifyUserAuthorization ''bob'' ''alice'' ''token'']"
    by code_simp
  from validation_before_fetch [where e = ?noToken and w = exampleWorld and req = ?req] none
  have first: "fst (fetchHandler exampleWorld ?noToken ?req) = []"
    by blast
  from validation_before_fetch [where e = exampleEnv and w = exampleWorld and req = ?req] cfg rejected
  have "fst (fetchHandler exampleWorld exampleEnv ?req) = authorizationCalls exampleEnv ?req"
    and "status (snd (fetchHandler exampleWorld exampleEnv ?req)) = 400"
    by blast+
  with none first cfg rejected calls show ?thesis
    by simp
qed

text \<open>
  An example for claim C5 as stated: the years parameter \<^verbatim>\<open>3abc\<close> is not a number, and
  it is not rejected. \<^verbatim>\<open>parseInt\<close> reads its leading 3, the year list is the three years
  from 2024 down, their calendars are fetched and the response is the document.
\<close>

theorem years_parameter_counterexample:
  "parseInt (trim ''3abc'') = Some 3 \<and>
   parseYears (Some ''3abc'') 2024 = Inr [2024, 2023, 2022] \<and>
   fst (fetchHandler exampleWorld exampleEnv (exampleRequest None (Some ''3abc'') None)) =
     [FetchContributions ''alice'' 2024 ''token'', FetchContributions ''alice'' 2023 ''token'',
      FetchContributions ''alice'' 2022 ''token''] \<and>
   status (snd (fetchHandler exampleWorld exampleEnv (exampleRequest None (Some ''3abc'') None))) = 200"
proof -
  let ?req = "exampleRequest None (Some ''3abc'') None"
  have cfg: "truthy (GITHUB_TOKEN exampleEnv)" "truthy (PRIMARY_USER exampleEnv)"
    by (simp_all add: exampleEnv_def truthy_def)
  have th: "orElse (queryTheme ?req) ''dark'' \<in> set validThemes"
    by (simp add: exampleRequest_def orElse_def validThemes_def)
  have n: "parseInt (trim ''3abc'') = Some 3"
    by code_simp
  have ys: "parseYears (Some ''3abc'') 2024 = Inr [2024, 2023, 2022]"
    by code_simp
  then have ys': "parseYears (queryYears ?req) (currentYear exampleWorld) = Inr [2024, 2023, 2022]"
    by (simp add: exampleRequest_def exampleWorld_def)
  have calls: "authorizationCalls exampleEnv ?req @ fetchCalls exampleWorld exampleEnv ?req [2024, 2023, 2022] =
     [FetchContributions ''alice'' 2024 ''token'', FetchContributions ''alice'' 2023 ''token'',
      FetchContributions ''alice'' 2022 ''token'']"
    by code_simp
  have ok: "fetchContributions exampleWorld u y (tokenOf exampleEnv) \<noteq> None" for u y
    by (simp add: exampleWorld_def)
  from ys' calls have "fst (fetchHandler exampleWorld exampleEnv ?req) =
     [FetchContributions ''alice'' 2024 ''token'', FetchContributions ''alice'' 2023 ''token'',
      FetchContributions ''alice'' 2022 ''token'']"
    using th by (simp add: handler_after_config [OF cfg])
  with n ys handler_success [OF cfg th ys' ok] show ?thesis
    by simp
qed

text \<open>
  Claim C5, as the code has it. For a request that passes the configuration checks and
  the theme validation: a non-empty years parameter is read by \<^verbatim>\<open>parseInt\<close> after
  trimming, which takes the leading integer and ignores what follows it; when there is no
  leading integer, or it is below 1, the request is rejected with status 400 and the
  message that asks for a positive number, after the authorization checks and before any
  fetch. Otherwise the year list counts back from the current year, at most the requested
  number of years and no year before 2008, and exactly these years are fetched; the
  parameter \<^verbatim>\<open>100\<close> in 2024 gives the 17 years from 2024 down to 2008. An absent or empty
  years parameter gives the current year alone.
\<close>

theorem years_parameter:
  "truthy (GITHUB_TOKEN e) \<Longrightarrow> truthy (PRIMARY_USER e) \<Longrightarrow>
   orElse (queryTheme req) ''dark'' \<in> set validThemes \<Longrightarrow>
   (truthy (queryYears req) \<and>
    (parseInt (trim (orElse (queryYears req) [])) = None \<or>
     (\<exists>n. parseInt (trim (orElse (queryYears req) [])) = Some n \<and> n < 1)) \<longrightarrow>
      snd (fetchHandler w e req) = textResponse 400 invalidYearsMessage \<and>
      fst (fetchHandler w e req) = authorizationCalls e req) \<and>
   (\<forall>n. truthy (queryYears req) \<and> parseInt (trim (orElse (queryYears req) [])) = Some n \<and> 1 \<le> n \<longrightarrow>
      parseYears (queryYears req) (currentYear w) = Inr (yearsCountingBack (currentYear w) n) \<and>
      fst (fetchHandler w e req) =
        authorizationCalls e req @ fetchCalls w e req (yearsCountingBack (currentYear w) n)) \<and>
   (\<not> truthy (queryYears req) \<longrightarrow>
      parseYears (queryYears req) (currentYear w) = Inr [currentYear w] \<and>
      fst (fetchHandler w e req) = authorizationCalls e req @ fetchCalls w e req [currentYear w]) \<and>
   parseYears (Some ''100'') 2024 =
     Inr [2024, 2023, 2022, 2021, 2020, 2019, 2018, 2017, 2016, 2015, 2014, 2013, 2012, 2011,
          2010, 2009, 2008]"
proof -
  assume cfg: "truthy (GITHUB_TOKEN e)" "truthy (PRIMARY_USER e)"
    and th: "orElse (queryTheme req) ''dark'' \<in> set validThemes"
  note h = handler_after_config [OF cfg, of w req]
  have rejected: "snd (fetchHandler w e req) = textResponse 400 invalidYearsMessage \<and>
      fst (fetchHandler w e req) = authorizationCalls e req"
    if "truthy (queryYears req) \<and>
      (parseInt (trim (orElse (queryYears req) [])) = None \<or>
       (\<exists>n. parseInt (trim (orElse (queryYears req) [])) = Some n \<and> n < 1))"
    using that th unfolding h by (auto simp: parseYears_cases)
  have accepted: "parseYears (queryYears req) (currentYear w) = Inr (yearsCountingBack (currentYear w) n) \<and>
      fst (fetchHandler w e req) =
        authorizationCalls e req @ fetchCalls w e req (yearsCountingBack (currentYear w) n)"
    if "truthy (queryYears req) \<and> parseInt (trim (orElse (queryYears req) [])) = Some n \<and> 1 \<le> n" for n
    using that th unfolding h by (auto simp: parseYears_cases)
  have absent: "parseYears (queryYears req) (currentYear w) = Inr [currentYear w] \<and>
      fst (fetchHandler w e req) = authorizationCalls e req @ fetchCalls w e req [currentYear w]"
    if "\<not> truthy (queryYears req)"
    using that th unfolding h by (auto simp: parseYears_cases)
  have ex: "parseYears (Some ''100'') 2024 =
     Inr [2024, 2023, 2022, 2021, 2020, 2019, 2018, 2017, 2016, 2015, 2014, 2013, 2012, 2011,
          2010, 2009, 2008]"
    by code_simp
  from rejected accepted absent ex show ?thesis by blast
qed

theorem years_parameter_witness:
  "truthy (GITHUB_TOKEN exampleEnv) \<and> truthy (PRIMARY_USER exampleEnv) \<and>
   orElse (queryTheme (exampleRequest None (Some ''100'') None)) ''dark'' \<in> set validThemes \<and>
   parseInt (trim ''100'') = Some 100 \<and>
   parseYears (Some ''100'') (currentYear exampleWorld) = Inr (yearsCountingBack 2024 100) \<and>
   length (yearsCountingBack 2024 100) = 17 \<and>
   parseInt (trim ''0'') = Some 0 \<and>
   snd (fetchHandler exampleWorld exampleEnv (exampleRequest None (Some ''0'') None))
     = textResponse 400 invalidYearsMessage \<and>
   parseYears None (currentYear exampleWorld) = Inr [2024]"
proof -
  let ?r100 = "exampleRequest None (Some ''100'') None"
  let ?r0 = "exampleRequest None (Some ''0'') None"
  let ?rNone = "exampleRequest None None None"
  have cfg: "truthy (GITHUB_TOKEN exampleEnv)" "truthy (PRIMARY_USER exampleEnv)"
    by (simp_all add: exampleEnv_def truthy_def)
  have th: "orElse (queryTheme (exampleRequest None y None)) ''dark'' \<in> set validThemes" for y
    by (simp add: exampleRequest_def orElse_def validThemes_def)
  have cur: "currentYear exampleWorld = 2024"
    by (simp add: exampleWorld_def)
  have q: "queryYears (exampleRequest None y None) = y" for y
    by (simp add: exampleRequest_def)
  have p100: "parseInt (trim ''100'') = Some 100" by code_simp
  have p0: "parseInt (trim ''0'') = Some 0" by code_simp
  have t100: "truthy (queryYears ?r100) \<and>
      parseInt (trim (orElse (queryYears ?r100) [])) = Some 100 \<and> (1::int) \<le> 100"
    using p100 by (simp add: q truthy_def orElse_def)
  have t0: "truthy (queryYears ?r0) \<and>
      (parseInt (trim (orElse (queryYears ?r0) [])) = None \<or>
       (\<exists>n. parseInt (trim (orElse (queryYears ?r0) [])) = Some n \<and> n < 1))"
    using p0 by (simp add: q truthy_def orElse_def)
  have tn: "\<not> truthy (queryYears ?rNone)"
    by (simp add: q truthy_def)
  note y100 = years_parameter [where e = exampleEnv and w = exampleWorld and req = ?r100, OF cfg th]
  from y100 t100
  have a: "parseYears (queryYears ?r100) (currentYear exampleWorld) =
      Inr (yearsCountingBack (currentYear exampleWorld) 100)"
    by blast
  from y100
  have l: "parseYears (Some ''100'') 2024 =
     Inr [2024, 2023, 2022, 2021, 2020, 2019, 2018, 2017, 2016, 2015, 2014, 2013, 2012, 2011,
          2010, 2009, 2008]"
    by blast
  from years_parameter [where e = exampleEnv and w = exampleWorld and req = ?r0, OF cfg th] t0
  have b: "snd (fetchHandler exampleWorld exampleEnv ?r0) = textResponse 400 invalidYearsMessage"
    by blast
  from years_parameter [where e = exampleEnv and w = exampleWorld and req = ?rNone, OF cfg th] tn
  have c: "parseYears (queryYears ?rNone) (currentYear exampleWorld) = Inr [currentYear exampleWorld]"
    by blast
  from a have "parseYears (Some ''100'') 2024 = Inr (yearsCountingBack 2024 100)"
    by (simp add: q cur)
  with l have ycb: "yearsCountingBack 2024 100 =
     [2024, 2023, 2022, 2021, 2020, 2019, 2018, 2017, 2016, 2015, 2014, 2013, 2012, 2011,
      2010, 2009, 2008]"
    by (simp only: sum.inject)
  have "length (yearsCountingBack 2024 100) = 17"
    by (simp add: ycb)
  with cfg th [of "Some ''100''"] p100 p0 a b c show ?thesis
    by (simp add: q cur)
qed

text \<open>
  Claim C10. For every request that passes the configuration checks, the list of
  authorized accounts is the primary account followed by the authorized additional
  accounts; the additional accounts never include the primary account; so the list is not
  empty, the handler never answers that there are no authorized accounts, and a document
  it returns is drawn for exactly this list.
\<close>

theorem primary_user_always_authorized:
  "truthy (GITHUB_TOKEN e) \<Longrightarrow> truthy (PRIMARY_USER e) \<Longrightarrow>
   requestAuthorizedUsers w e req =
     primaryUserOf e #
     filter (\<lambda>u. verifyUserAuthorization w u (primaryUserOf e) (tokenOf e)) (requestAdditionalUsers e req) \<and>
   primaryUserOf e \<notin> set (requestAdditionalUsers e req) \<and>
   requestAuthorizedUsers w e req \<noteq> [] \<and>
   body (snd (fetchHandler w e req)) \<noteq> ''Error: No authorized users to display'' \<and>
   (status (snd (fetchHandler w e req)) = 200 \<longrightarrow>
      (\<exists>yearData. body (snd (fetchHandler w e req)) =
         generateSVGVertical yearData (requestAuthorizedUsers w e req)
           (orElse (queryTheme req) ''dark'')))"
proof -
  assume cfg: "truthy (GITHUB_TOKEN e)" "truthy (PRIMARY_USER e)"
  have users: "requestAuthorizedUsers w e req =
     primaryUserOf e #
     filter (\<lambda>u. verifyUserAuthorization w u (primaryUserOf e) (tokenOf e)) (requestAdditionalUsers e req)"
    by (simp add: requestAuthorizedUsers_def authorizedUsersOf_eq)
  have nodup: "primaryUserOf e \<notin> set (requestAdditionalUsers e req)"
    using additionalUsersOf_set [of "primaryUserOf e" "queryMerge req" "primaryUserOf e"]
    by (auto simp: requestAdditionalUsers_def)
  from users have ne: "requestAuthorizedUsers w e req \<noteq> []" by simp
  have ok: "\<exists>yearData. body (snd (fetchHandler w e req)) =
         generateSVGVertical yearData (requestAuthorizedUsers w e req)
           (orElse (queryTheme req) ''dark'')"
    if "status (snd (fetchHandler w e req)) = 200"
    using that unfolding handler_after_config [OF cfg]
    by (auto simp: textResponse_def dest!: parseYears_rejected split: if_splits sum.splits option.splits)
  from users nodup ne body_not_no_users ok show ?thesis by blast
qed

theorem primary_user_always_authorized_witness:
  "truthy (GITHUB_TOKEN exampleEnv) \<and> truthy (PRIMARY_USER exampleEnv) \<and>
   requestAdditionalUsers exampleEnv (exampleRequest (Some ''bob, carol,alice,,bob'') None None)
     = [''bob'', ''carol'', ''bob''] \<and>
   requestAuthorizedUsers exampleWorld exampleEnv
       (exampleRequest (Some ''bob, carol,alice,,bob'') None None)
     = [''alice'', ''bob'', ''bob''] \<and>
   body (snd (fetchHandler exampleWorld exampleEnv
                (exampleRequest (Some ''bob, carol,alice,,bob'') None None)))
     \<noteq> ''Error: No authorized users to display''"
proof -
  let ?req = "exampleRequest (Some ''bob, carol,alice,,bob'') None None"
  have cfg: "truthy (GITHUB_TOKEN exampleEnv)" "truthy (PRIMARY_USER exampleEnv)"
    by (simp_all add: exampleEnv_def truthy_def)
  have adds: "requestAdditionalUsers exampleEnv ?req = [''bob'', ''carol'', ''bob'']"
    by code_simp
  have p: "primaryUserOf exampleEnv = ''alice''"
    by code_simp
  note t = primary_user_always_authorized [where e = exampleEnv and w = exampleWorld and req = ?req, OF cfg]
  from t have "requestAuthorizedUsers exampleWorld exampleEnv ?req =
     primaryUserOf exampleEnv #
     filter (\<lambda>u. verifyUserAuthorization exampleWorld u (primaryUserOf exampleEnv) (tokenOf exampleEnv))
       (requestAdditionalUsers exampleEnv ?req)"
    by blast
  then have users: "requestAuthorizedUsers exampleWorld exampleEnv ?req = [''alice'', ''bob'', ''bob'']"
    by (simp add: adds p exampleWorld_def)
  from t have "body (snd (fetchHandler exampleWorld exampleEnv ?req))
     \<noteq> ''Error: No authorized users to display''"
    by blast
  with cfg adds users show ?thesis
    by simp
qed

section \<open>Markup of the document\<close>

lemma markupChars_Nil [simp]: "markupChars [] = []"
  by (simp add: markupChars_def)

lemma markupChars_append [simp]: "markupChars (a @ b) = markupChars a @ markupChars b"
  by (simp add: markupChars_def)

lemma markupChars_concat: "markupChars (concat xss) = concat (map markupChars xss)"
  by (induction xss) simp_all

lemma plain_append [simp]: "plain (a @ b) \<longleftrightarrow> plain a \<and> plain b"
  by (simp add: plain_def)

lemma plain_markupChars: "plain s \<Longrightarrow> markupChars s = []"
  by (induction s) (simp_all add: plain_def markupChars_def)

lemma plain_ampersandsEscaped: "plain s \<Longrightarrow> ampersandsEscaped s"
  by (induction s) (simp_all add: plain_def)

lemma take_append_full: "take n cs = e \<Longrightarrow> length e = n \<Longrightarrow> take n (cs @ rest) = e"
proof -
  assume e: "take n cs = e" and n: "length e = n"
  then have "length (take n cs) = n" by simp
  then have "n - length cs = 0" by simp
  with e show ?thesis by simp
qed

lemma startsEntity_append: "startsEntity cs \<Longrightarrow> startsEntity (cs @ rest)"
  unfolding startsEntity_def
  by (elim disjE) (simp_all add: take_append_full del: take_append)

lemma ampersandsEscaped_append:
  "ampersandsEscaped a \<Longrightarrow> ampersandsEscaped b \<Longrightarrow> ampersandsEscaped (a @ b)"
  by (induction a) (simp_all add: startsEntity_append)

lemma ampersandsEscaped_suffix: "ampersandsEscaped (a @ b) \<Longrightarrow> ampersandsEscaped b"
  by (induction a) simp_all

lemma ampersandsEscaped_append_iff:
  "ampersandsEscaped a \<Longrightarrow> ampersandsEscaped (a @ b) = ampersandsEscaped b"
  using ampersandsEscaped_append ampersandsEscaped_suffix by blast

lemma ampersandsEscaped_concat:
  "(\<And>xs. xs \<in> set xss \<Longrightarrow> ampersandsEscaped xs) \<Longrightarrow> ampersandsEscaped (concat xss)"
  by (induction xss) (simp_all add: ampersandsEscaped_append)

lemma markupSafe_iff: "markupSafe s \<longleftrightarrow> markupChars s = [] \<and> ampersandsEscaped s"
  by (induction s) (auto simp: markupChars_def isMarkupChar_def)

lemma escapeXml_markupChars: "markupChars (escapeXml s) = []"
  using markupSafe_escapeXml [of s] by (simp add: markupSafe_iff)

lemma escapeXml_ampersandsEscaped: "ampersandsEscaped (escapeXml s)"
  using markupSafe_escapeXml [of s] by (simp add: markupSafe_iff)

lemma plain_digitChar: "n < 10 \<Longrightarrow> plain [digitChar n]"
proof -
  have "list_all (\<lambda>c. plain [c]) ''0123456789''"
    by (simp add: plain_def isMarkupChar_def)
  moreover assume "n < 10"
  ultimately show ?thesis
    by (simp add: list_all_length digitChar_def)
qed

lemma plain_showNat: "plain (showNat n)"
proof (induction n rule: showNat.induct)
  case (1 n)
  show ?case
  proof (cases "n < 10")
    case True
    then show ?thesis by (subst showNat.simps) (simp add: plain_digitChar)
  next
    case False
    with 1 show ?thesis
      by (subst showNat.simps) (simp add: plain_digitChar)
  qed
qed

lemma plain_showInt: "plain (showInt i)"
  using plain_showNat by (simp add: showInt_def plain_def isMarkupChar_def)

lemma plain_showNumber: "plain (showNumber x)"
  by (cases x) (simp_all add: showNumber_def plain_showNat, simp add: plain_def isMarkupChar_def)

lemma plain_monthShort: "plain (monthShort d)"
proof (cases "parseIsoDate d")
  case None
  then show ?thesis by (simp add: monthShort_def plain_def isMarkupChar_def)
next
  case (Some a)
  then obtain y m k where a: "parseIsoDate d = Some (y, m, k)" by (cases a) auto
  then have m: "m - 1 < 12"
    by (auto simp: parseIsoDate_def split: if_splits option.splits)
  have "list_all plain monthNames"
    by (simp add: monthNames_def plain_def isMarkupChar_def)
  moreover have "length monthNames = 12" by (simp add: monthNames_def)
  ultimately have "plain (monthNames ! (m - 1))"
    using m by (simp add: list_all_length)
  with a show ?thesis by (simp add: monthShort_def)
qed

lemma plain_themeTable:
  "list_all (\<lambda>(name, t). plain (background t) \<and> plain (yearLabel t) \<and> plain (monthLabel t) \<and>
       plain (dayLabel t) \<and> plain (NONE (levels t)) \<and> plain (FIRST_QUARTILE (levels t)) \<and>
       plain (SECOND_QUARTILE (levels t)) \<and> plain (THIRD_QUARTILE (levels t)) \<and>
       plain (FOURTH_QUARTILE (levels t))) themeTable"
  by (simp add: themeTable_def plain_def isMarkupChar_def)

lemma plain_theme:
  assumes "map_of themeTable name = Some t"
  shows "plain (background t) \<and> plain (yearLabel t) \<and> plain (monthLabel t) \<and>
       plain (dayLabel t) \<and> plain (NONE (levels t)) \<and> plain (FIRST_QUARTILE (levels t)) \<and>
       plain (SECOND_QUARTILE (levels t)) \<and> plain (THIRD_QUARTILE (levels t)) \<and>
       plain (FOURTH_QUARTILE (levels t))"
proof -
  from assms have "(name, t) \<in> set themeTable" by (rule map_of_SomeD)
  with plain_themeTable show ?thesis
    by (auto simp: list_all_iff)
qed

lemma plain_dark:
  "plain (NONE (levels dark)) \<and> plain (FIRST_QUARTILE (levels dark)) \<and>
   plain (SECOND_QUARTILE (levels dark)) \<and> plain (THIRD_QUARTILE (levels dark)) \<and>
   plain (FOURTH_QUARTILE (levels dark))"
  by (simp add: dark_def themeTable_def plain_def isMarkupChar_def)

lemma themeColorsOf_cases:
  "themeColorsOf theme = Inherited \<or>
   (\<exists>name t. map_of themeTable name = Some t \<and> themeColorsOf theme = Theme t)"
proof (cases "map_of themeTable theme")
  case None
  have d: "map_of themeTable ''dark'' = Some dark"
    by (simp add: themeTable_def dark_def)
  from None have "THEMES theme = Inherited \<or> THEMES theme = Undefined"
    by (simp add: THEMES_def)
  then have "themeColorsOf theme = Inherited \<or> themeColorsOf theme = Theme dark"
    by (auto simp: themeColorsOf_def THEMES_dark)
  with d show ?thesis by blast
next
  case (Some t)
  then have "themeColorsOf theme = Theme t" by (rule themeColorsOf_registered)
  with Some show ?thesis by blast
qed

lemma plain_themeField:
  "plain (themeField background (themeColorsOf theme)) \<and>
   plain (themeField yearLabel (themeColorsOf theme)) \<and>
   plain (themeField monthLabel (themeColorsOf theme)) \<and>
   plain (themeField dayLabel (themeColorsOf theme))"
proof -
  have u: "plain ''undefined''" by (simp add: plain_def isMarkupChar_def)
  from themeColorsOf_cases [of theme] show ?thesis
  proof
    assume "themeColorsOf theme = Inherited"
    with u show ?thesis by (simp add: themeField_def)
  next
    assume "\<exists>name t. map_of themeTable name = Some t \<and> themeColorsOf theme = Theme t"
    then obtain name t where "map_of themeTable name = Some t" and t: "themeColorsOf theme = Theme t"
      by blast
    from plain_theme [OF this(1)] t show ?thesis by (simp add: themeField_def)
  qed
qed

lemma plain_levels:
  assumes "plain (NONE l) \<and> plain (FIRST_QUARTILE l) \<and> plain (SECOND_QUARTILE l) \<and>
     plain (THIRD_QUARTILE l) \<and> plain (FOURTH_QUARTILE l)"
  shows "plain (case levelColor l level of Some c \<Rightarrow> c | None \<Rightarrow> NONE l)"
  using assms by (simp add: levelColor_def)

lemma plain_getLevelColor: "plain (getLevelColor level theme)"
proof (cases "THEMES theme")
  case (Theme t)
  then have "map_of themeTable theme = Some t"
    by (auto simp: THEMES_def split: option.splits if_splits)
  from plain_theme [OF this] have "plain (case levelColor (levels t) level of Some c \<Rightarrow> c | None \<Rightarrow> NONE (levels t))"
    by (intro plain_levels) simp
  with Theme show ?thesis by (simp add: getLevelColor_def Let_def)
next
  case Undefined
  with plain_levels [OF plain_dark, of level] show ?thesis by (simp add: getLevelColor_def Let_def)
next
  case Inherited
  with plain_levels [OF plain_dark, of level] show ?thesis by (simp add: getLevelColor_def Let_def)
qed

lemmas plain_parts = plain_showNat plain_showInt plain_showNumber plain_monthShort
  plain_getLevelColor plain_themeField [THEN conjunct1]
  plain_themeField [THEN conjunct2, THEN conjunct1]
  plain_themeField [THEN conjunct2, THEN conjunct2, THEN conjunct1]
  plain_themeField [THEN conjunct2, THEN conjunct2, THEN conjunct2]

lemmas markupChars_parts = plain_parts [THEN plain_markupChars] escapeXml_markupChars

lemmas ampersandsEscaped_parts =
  plain_parts [THEN plain_ampersandsEscaped, THEN ampersandsEscaped_append_iff]
  escapeXml_ampersandsEscaped [THEN ampersandsEscaped_append_iff]

lemma markupChars_Cons:
  "markupChars (c # cs) = (if isMarkupChar c then c # markupChars cs else markupChars cs)"
  by (simp add: markupChars_def)

lemma renderCell_markupChars:
  "markupChars (renderCell cal usernames xOffset yOffset theme padding weekIdx dayIdx d) = cellSkeleton"
  by (simp add: renderCell_def Let_def markupChars_parts markupChars_Cons isMarkupChar_def
      cellSkeleton_def)

lemma renderCell_ampersandsEscaped:
  "ampersandsEscaped (renderCell cal usernames xOffset yOffset theme padding weekIdx dayIdx d)"
  by (simp add: renderCell_def Let_def ampersandsEscaped_parts)

lemma foldl_append_indexed:
  "foldl (\<lambda>s (i, x). s @ f i x) s ps = s @ concat (map (\<lambda>(i, x). f i x) ps)"
  by (induction ps arbitrary: s) (simp_all add: split_beta)

lemma week_cells_markup:
  "markupChars (foldl (\<lambda>s1 (dayIdx, d).
       s1 @ renderCell cal usernames xOffset yOffset theme padding weekIdx dayIdx d) s (enumerate n ds))
     = markupChars s @ concat (replicate (length ds) cellSkeleton)"
  by (induction ds arbitrary: s n) (simp_all add: renderCell_markupChars)

lemma week_cells_ampersands:
  "ampersandsEscaped s \<Longrightarrow>
   ampersandsEscaped (foldl (\<lambda>s1 (dayIdx, d).
       s1 @ renderCell cal usernames xOffset yOffset theme padding weekIdx dayIdx d) s (enumerate n ds))"
  by (induction ds arbitrary: s n)
    (simp_all add: renderCell_ampersandsEscaped ampersandsEscaped_append)

lemma concat_replicate_add:
  "concat (replicate m x) @ concat (replicate n x) = concat (replicate (m + n) x)"
  by (simp add: replicate_add)

lemma all_cells_markup:
  "markupChars (foldl (\<lambda>s (weekIdx, wk).
       foldl (\<lambda>s1 (dayIdx, d).
           s1 @ renderCell cal usernames xOffset yOffset theme padding weekIdx dayIdx d)
         s (enumerate 0 (contributionDays wk))) s (enumerate n wks))
     = markupChars s @ concat (replicate (length (concat (map contributionDays wks))) cellSkeleton)"
  by (induction wks arbitrary: s n) (simp_all add: week_cells_markup replicate_add)

lemma all_cells_ampersands:
  "ampersandsEscaped s \<Longrightarrow>
   ampersandsEscaped (foldl (\<lambda>s (weekIdx, wk).
       foldl (\<lambda>s1 (dayIdx, d).
           s1 @ renderCell cal usernames xOffset yOffset theme padding weekIdx dayIdx d)
         s (enumerate 0 (contributionDays wk))) s (enumerate n wks))"
  by (induction wks arbitrary: s n) (simp_all add: week_cells_ampersands)

lemma monthLabels_markup:
  "markupChars (fst (foldl (monthLabelStep yOffset padding) (s, currentMonth, monthX) wks))
     = markupChars s @ concat (replicate (countMonthLabels currentMonth wks) labelSkeleton)"
proof (induction wks arbitrary: s currentMonth monthX)
  case Nil
  then show ?case by simp
next
  case (Cons wk wks)
  show ?case
  proof (cases "contributionDays wk")
    case Nil
    with Cons show ?thesis by (simp add: monthLabelStep_def)
  next
    case (Cons first rest)
    with Cons.IH show ?thesis
      by (simp add: monthLabelStep_def Let_def markupChars_parts markupChars_Cons
          isMarkupChar_def labelSkeleton_def)
  qed
qed

lemma monthLabels_ampersands:
  "ampersandsEscaped s \<Longrightarrow>
   ampersandsEscaped (fst (foldl (monthLabelStep yOffset padding) (s, currentMonth, monthX) wks))"
proof (induction wks arbitrary: s currentMonth monthX)
  case Nil
  then show ?case by simp
next
  case (Cons wk wks)
  show ?case
  proof (cases "contributionDays wk")
    case Nil
    with Cons show ?thesis by (simp add: monthLabelStep_def)
  next
    case (Cons first rest)
    with Cons.IH Cons.prems show ?thesis
      by (simp add: monthLabelStep_def Let_def ampersandsEscaped_parts
          ampersandsEscaped_append_iff)
  qed
qed

lemma dayLabels_markup:
  "markupChars (foldl (dayLabelStep xOffset yOffset padding) s
       (enumerate 0 [[], ''Mon'', [], ''Wed'', [], ''Fri'', []]))
     = markupChars s @ concat (replicate 3 labelSkeleton)"
  by (simp add: dayLabelStep_def Let_def markupChars_parts markupChars_Cons isMarkupChar_def
      labelSkeleton_def numeral_3_eq_3)

lemma dayLabels_ampersands:
  "ampersandsEscaped s \<Longrightarrow>
   ampersandsEscaped (foldl (dayLabelStep xOffset yOffset padding) s
       (enumerate 0 [[], ''Mon'', [], ''Wed'', [], ''Fri'', []]))"
  by (simp add: dayLabelStep_def Let_def ampersandsEscaped_parts ampersandsEscaped_append_iff)

lemma renderYearGraph_markupChars:
  "markupChars (svg (renderYearGraph cal y usernames xOffset yOffset theme padding)) = graphSkeleton cal"
  unfolding renderYearGraph_def Let_def
  apply (simp only: graph.select_convs all_cells_markup dayLabels_markup monthLabels_markup)
  apply (simp add: markupChars_parts markupChars_Cons isMarkupChar_def graphSkeleton_def
      allDays_def)
  apply (simp add: labelSkeleton_def)
  done

lemma renderYearGraph_ampersandsEscaped:
  "ampersandsEscaped (svg (renderYearGraph cal y usernames xOffset yOffset theme padding))"
  unfolding renderYearGraph_def Let_def
  apply (simp only: graph.select_convs)
  apply (intro all_cells_ampersands dayLabels_ampersands monthLabels_ampersands)
  apply (simp add: ampersandsEscaped_parts)
  done

lemma markupChars_join:
  "markupChars (join ''\<newline>'' gs) = concat (map markupChars gs)"
  by (induction "''\<newline>''" gs rule: join.induct)
    (simp_all add: markupChars_Cons isMarkupChar_def)

lemma graphs_markup:
  "map markupChars (snd (foldl (\<lambda>(currentY, graphSVGs) (idx, yd).
        (let result = renderYearGraph (calendar yd) (year yd) usernames 0 currentY theme padding
         in (currentY + height result + (if idx + 1 < len then graphSpacing else 0),
             graphSVGs @ [svg result])))
      (y0, acc) (enumerate n yds)))
   = map markupChars acc @ map (\<lambda>yd. graphSkeleton (calendar yd)) yds"
  by (induction yds arbitrary: y0 acc n) (simp_all add: Let_def renderYearGraph_markupChars)

lemma join_ampersands:
  "list_all ampersandsEscaped gs \<Longrightarrow> ampersandsEscaped (join ''\<newline>'' gs)"
  by (induction "''\<newline>''" gs rule: join.induct) (simp_all add: ampersandsEscaped_append_iff)

lemma graphs_ampersands:
  "list_all ampersandsEscaped acc \<Longrightarrow>
   list_all ampersandsEscaped (snd (foldl (\<lambda>(currentY, graphSVGs) (idx, yd).
        (let result = renderYearGraph (calendar yd) (year yd) usernames 0 currentY theme padding
         in (currentY + height result + (if idx + 1 < len then graphSpacing else 0),
             graphSVGs @ [svg result])))
      (y0, acc) (enumerate n yds)))"
  by (induction yds arbitrary: y0 acc n) (simp_all add: Let_def renderYearGraph_ampersandsEscaped)

lemma generateSVGStyles_markupChars:
  "markupChars (generateSVGStyles (themeColorsOf theme)) = replicate 8 (CHR 0x27)"
  by (simp add: generateSVGStyles_def markupChars_parts markupChars_Cons isMarkupChar_def
      eval_nat_numeral)

lemma generateSVGStyles_ampersandsEscaped:
  "ampersandsEscaped (generateSVGStyles (themeColorsOf theme))"
  by (simp add: generateSVGStyles_def ampersandsEscaped_parts)

lemma generateCompleteSVG_markupChars:
  "markupChars (generateCompleteSVG w h usernames graphSVGs theme padding) =
     headSkeleton @ labelSkeleton @ concat (map markupChars graphSVGs) @ ''<>''"
  by (simp add: generateCompleteSVG_def Let_def generateSVGStyles_markupChars markupChars_parts
      markupChars_Cons isMarkupChar_def headSkeleton_def labelSkeleton_def markupChars_join)

lemma generateCompleteSVG_ampersandsEscaped:
  "list_all ampersandsEscaped graphSVGs \<Longrightarrow>
   ampersandsEscaped (generateCompleteSVG w h usernames graphSVGs theme padding)"
  by (simp add: generateCompleteSVG_def Let_def ampersandsEscaped_parts join_ampersands
      generateSVGStyles_ampersandsEscaped [THEN ampersandsEscaped_append_iff]
      ampersandsEscaped_append_iff)

lemma generateSVGVertical_markupChars:
  "markupChars (generateSVGVertical yearData usernames theme) = documentSkeleton yearData"
  unfolding generateSVGVertical_def Let_def
  apply (simp only: generateCompleteSVG_markupChars graphs_markup [unfolded Let_def])
  apply (simp add: documentSkeleton_def)
  done

lemma generateSVGVertical_ampersandsEscaped:
  "ampersandsEscaped (generateSVGVertical yearData usernames theme)"
  unfolding generateSVGVertical_def Let_def
  by (rule generateCompleteSVG_ampersandsEscaped) (rule graphs_ampersands [unfolded Let_def], simp)

lemma error_bodies_plain:
  "plain ''Error: GITHUB_TOKEN not configured.'' \<and>
   plain ''Error: PRIMARY_USER not configured.'' \<and>
   plain invalidThemeMessage \<and> plain invalidYearsMessage \<and>
   plain ''An error occurred while generating the contribution graph''"
  by (simp add: plain_def isMarkupChar_def invalidThemeMessage_def invalidYearsMessage_def
      validThemes_def)

lemma response_body_markup:
  "markupChars (body (snd (fetchHandler w e req))) =
     (if status (snd (fetchHandler w e req)) = 200
      then documentSkeleton (requestYearData w e req) else []) \<and>
   ampersandsEscaped (body (snd (fetchHandler w e req)))"
proof (cases "truthy (GITHUB_TOKEN e) \<and> truthy (PRIMARY_USER e)")
  case False
  with error_bodies_plain show ?thesis
    by (auto simp: fetchHandler_def textResponse_def Let_def
        dest: plain_markupChars plain_ampersandsEscaped)
next
  case True
  then have cfg: "truthy (GITHUB_TOKEN e)" "truthy (PRIMARY_USER e)" by simp_all
  note pm = error_bodies_plain [THEN conjunct2, THEN conjunct2]
  have theme: "markupChars invalidThemeMessage = [] \<and> ampersandsEscaped invalidThemeMessage"
    using pm by (simp add: plain_markupChars plain_ampersandsEscaped)
  have years: "markupChars invalidYearsMessage = [] \<and> ampersandsEscaped invalidYearsMessage"
    using pm by (simp add: plain_markupChars plain_ampersandsEscaped)
  have generic: "markupChars ''An error occurred while generating the contribution graph'' = [] \<and>
      ampersandsEscaped ''An error occurred while generating the contribution graph''"
    using pm by (simp add: plain_markupChars plain_ampersandsEscaped)
  show ?thesis
    unfolding handler_after_config [OF cfg] requestYearData_def
    using theme years generic
    by (auto simp: textResponse_def generateSVGVertical_markupChars
        generateSVGVertical_ampersandsEscaped
        dest!: parseYears_rejected split: sum.splits option.splits)
qed

text \<open>
  Claim C7. Whatever text \<open>escapeXml\<close> is given, its result has no raw \<^verbatim>\<open><\<close>, \<^verbatim>\<open>>\<close>,
  apostrophe or double quote, every ampersand in it starts one of the entities
  \<^verbatim>\<open>&lt;\<close>, \<^verbatim>\<open>&gt;\<close>, \<^verbatim>\<open>&amp;\<close>, \<^verbatim>\<open>&apos;\<close>, \<^verbatim>\<open>&quot;\<close>, and reading the entities back
  gives the text again. No such character of an account name, a date or any other input
  reaches the output raw: whatever the account names, the dates, the breakdowns, the
  levels and the theme name are, the occurrences of \<^verbatim>\<open><\<close>, \<^verbatim>\<open>>\<close>, apostrophe and double
  quote in a cell, in a year's graph, in the whole document and in the body of every
  response of the handler are exactly those of the markup the code itself writes, and
  every ampersand in them starts one of the five entities. The header text and a cell's
  date and tooltip are in the output in their escaped form.
\<close>

theorem escapeXml_no_raw_markup:
  \<open>markupSafe (escapeXml str) \<and>
   markupChars (escapeXml str) = [] \<and>
   unescapeXml (escapeXml str) = str \<and>
   escapeXml ''<a href="x">Tom & 'Jerry'</a>'' =
     ''&lt;a href=&quot;x&quot;&gt;Tom &amp; &apos;Jerry&apos;&lt;/a&gt;'' \<and>
   markupChars (renderCell cal usernames xOffset yOffset theme padding weekIdx dayIdx d)
     = cellSkeleton \<and>
   ampersandsEscaped (renderCell cal usernames xOffset yOffset theme padding weekIdx dayIdx d) \<and>
   markupChars (svg (renderYearGraph cal yr usernames xOffset yOffset theme padding))
     = graphSkeleton cal \<and>
   ampersandsEscaped (svg (renderYearGraph cal yr usernames xOffset yOffset theme padding)) \<and>
   markupChars (generateSVGVertical yearData usernames theme) = documentSkeleton yearData \<and>
   ampersandsEscaped (generateSVGVertical yearData usernames theme) \<and>
   markupChars (body (snd (fetchHandler w e req))) =
     (if status (snd (fetchHandler w e req)) = 200
      then documentSkeleton (requestYearData w e req) else []) \<and>
   ampersandsEscaped (body (snd (fetchHandler w e req))) \<and>
   (\<exists>head. generateCompleteSVG wd ht usernames graphSVGs theme padding =
     head @ ''  <text x="'' @ showNat padding @ ''" y="'' @ showNat (padding + 16) @
     ''" class="header-label">'' @ escapeXml (''Users - '' @ join '', '' usernames) @
     ''</text>\<newline>'' @ ''  '' @ join ''\<newline>'' graphSVGs @ ''\<newline>'' @ ''</svg>'') \<and>
   (\<exists>head. renderCell cal usernames xOffset yOffset theme padding weekIdx dayIdx d =
     head @ ''" data-date="'' @ escapeXml (date d) @ ''" data-count="'' @
     showNat (contributionCount d) @ ''">\<newline>'' @ ''  <title>'' @
     escapeXml (generateTooltipContent (date d)
        (case userContributions cal (date d) of Some m \<Rightarrow> m | None \<Rightarrow> Map.empty) usernames) @
     ''</title>\<newline>'' @ ''</rect>\<newline>'')\<close>
proof -
  have ex: \<open>escapeXml ''<a href="x">Tom & 'Jerry'</a>'' =
     ''&lt;a href=&quot;x&quot;&gt;Tom &amp; &apos;Jerry&apos;&lt;/a&gt;''\<close>
    by (simp add: escapeXml_def escapeChar_def)
  show ?thesis
    using markupSafe_escapeXml [of str] escapeXml_markupChars [of str]
      unescapeXml_escapeXml [of str] ex
      renderCell_markupChars [of cal usernames xOffset yOffset theme padding weekIdx dayIdx d]
      renderCell_ampersandsEscaped [of cal usernames xOffset yOffset theme padding weekIdx dayIdx d]
      renderYearGraph_markupChars [of cal yr usernames xOffset yOffset theme padding]
      renderYearGraph_ampersandsEscaped [of cal yr usernames xOffset yOffset theme padding]
      generateSVGVertical_markupChars [of yearData usernames theme]
      generateSVGVertical_ampersandsEscaped [of yearData usernames theme]
      response_body_markup [of w e req]
      generateCompleteSVG_header [of wd ht usernames graphSVGs theme padding]
      renderCell_escaped [of cal usernames xOffset yOffset theme padding weekIdx dayIdx d]
    by blast
qed

text \<open>The document of one year whose only day has a date with markup in it, drawn for an
  account whose name has markup in it: its markup characters are those of the head, the
  header, the year label, three day labels, one cell and the closing tag.\<close>

theorem escapeXml_no_raw_markup_witness:
  \<open>markupChars (generateSVGVertical [\<lparr>year = 2024, calendar = hostileCalendar\<rparr>] [''<b>&''] ''dark'') =
     headSkeleton @ labelSkeleton @
     (labelSkeleton @ labelSkeleton @ labelSkeleton @ labelSkeleton @ cellSkeleton) @ ''<>'' \<and>
   ampersandsEscaped (generateSVGVertical [\<lparr>year = 2024, calendar = hostileCalendar\<rparr>] [''<b>&''] ''dark'') \<and>
   escapeXml (date (hd (allDays hostileCalendar))) = ''&quot;&gt;&lt;script&gt;''\<close>
proof -
  note t = escapeXml_no_raw_markup [where yearData = "[\<lparr>year = 2024, calendar = hostileCalendar\<rparr>]"
      and usernames = "[''<b>&'']" and theme = "''dark''"]
  have none: \<open>parseIsoDate ''"><script>'' = None\<close>
    by (simp add: parseIsoDate_def)
  have sk: "documentSkeleton [\<lparr>year = 2024, calendar = hostileCalendar\<rparr>] =
     headSkeleton @ labelSkeleton @
     (labelSkeleton @ labelSkeleton @ labelSkeleton @ labelSkeleton @ cellSkeleton) @ ''<>''"
    by (simp add: documentSkeleton_def graphSkeleton_def hostileCalendar_def allDays_def
        getDate_def none numeral_3_eq_3)
  have d: \<open>escapeXml (date (hd (allDays hostileCalendar))) = ''&quot;&gt;&lt;script&gt;''\<close>
    by (simp add: hostileCalendar_def allDays_def escapeXml_def escapeChar_def)
  note rest = t [THEN conjunct2, THEN conjunct2, THEN conjunct2, THEN conjunct2,
      THEN conjunct2, THEN conjunct2, THEN conjunct2, THEN conjunct2]
  note m = rest [THEN conjunct1]
  note a = rest [THEN conjunct2, THEN conjunct1]
  from m a sk d show ?thesis
    by (simp only: simp_thms)
qed

end
